theory Spec2Isabelle
  imports Complex_Main "HOL-Library.Sublist"
begin

text \<open>
  A model of the OpenAPI documentation library: the reference resolver and the
  normalizer of \<open>parseOpenApi.ts\<close>, the search engine of \<open>useSearch\<close>, the loader of
  \<open>useApiLoader\<close>, and the URL builders of \<open>useExecuteOperation\<close> and
  \<open>useCodeSnippet\<close> with the cURL generator. The definitions come first, in the order
  of the data flow; the properties follow, one section per component.
\<close>

section \<open>Strings\<close>

text \<open>
  Strings are lists of characters. The library's texts (paths, operation ids, header
  names, reference pointers) are taken to be ASCII: case conversion and the
  character classes below act on the ASCII letters and digits only.
\<close>

definition isUpper :: "char \<Rightarrow> bool" where
  "isUpper c = (65 \<le> (of_char c :: nat) \<and> (of_char c :: nat) \<le> 90)"

definition isLower :: "char \<Rightarrow> bool" where
  "isLower c = (97 \<le> (of_char c :: nat) \<and> (of_char c :: nat) \<le> 122)"

definition isDigit :: "char \<Rightarrow> bool" where
  "isDigit c = (48 \<le> (of_char c :: nat) \<and> (of_char c :: nat) \<le> 57)"

definition toLowerCase :: "string \<Rightarrow> string" where
  "toLowerCase s = map (\<lambda>c. if isUpper c then char_of ((of_char c :: nat) + 32) else c) s"

definition toUpperCase :: "string \<Rightarrow> string" where
  "toUpperCase s = map (\<lambda>c. if isLower c then char_of ((of_char c :: nat) - 32) else c) s"

text \<open>\<open>text.includes(q)\<close>: \<open>q\<close> occurs in \<open>text\<close> as a contiguous run.\<close>

fun includes_str :: "string \<Rightarrow> string \<Rightarrow> bool" where
  "includes_str [] q = (q = [])"
| "includes_str (c # cs) q = (prefix q (c # cs) \<or> includes_str cs q)"

text \<open>
  \<open>findFirst pat s\<close> splits \<open>s\<close> at the leftmost occurrence of \<open>pat\<close>: the text
  before it and the text after it.
\<close>

fun findFirst :: "string \<Rightarrow> string \<Rightarrow> (string \<times> string) option" where
  "findFirst pat [] = (if pat = [] then Some ([], []) else None)"
| "findFirst pat (c # cs) =
     (if prefix pat (c # cs) then Some ([], drop (length pat) (c # cs))
      else (case findFirst pat cs of
              None \<Rightarrow> None
            | Some (pre, post) \<Rightarrow> Some (c # pre, post)))"

text \<open>
  The replacement text of \<open>String.prototype.replace\<close> is a template: \<open>$$\<close> stands for
  a dollar sign, \<open>$&\<close> for the matched text, \<open>$`\<close> for the text before the match and
  \<open>$'\<close> for the text after it. A string pattern has no capture groups, so every other
  character (a dollar sign before a digit included) stands for itself.
\<close>

fun getSubstitution :: "string \<Rightarrow> string \<Rightarrow> string \<Rightarrow> string \<Rightarrow> string" where
  "getSubstitution matched pre post [] = []"
| "getSubstitution matched pre post [c] = [c]"
| "getSubstitution matched pre post (c # d # r) =
     (if c = CHR ''$'' \<and> d = CHR ''$'' then CHR ''$'' # getSubstitution matched pre post r
      else if c = CHR ''$'' \<and> d = CHR ''&'' then matched @ getSubstitution matched pre post r
      else if c = CHR ''$'' \<and> d = CHR 0x60 then pre @ getSubstitution matched pre post r
      else if c = CHR ''$'' \<and> d = CHR 0x27 then post @ getSubstitution matched pre post r
      else c # getSubstitution matched pre post (d # r))"

text \<open>\<open>s.replace(pat, rep)\<close> with a string pattern: the leftmost occurrence only.\<close>

definition replace_str :: "string \<Rightarrow> string \<Rightarrow> string \<Rightarrow> string" where
  "replace_str s pat rep =
     (case findFirst pat s of
        None \<Rightarrow> s
      | Some (pre, post) \<Rightarrow> pre @ getSubstitution pat pre post rep @ post)"

text \<open>\<open>s.split(sep)\<close> with a one-character separator.\<close>

fun split_str :: "char \<Rightarrow> string \<Rightarrow> string list" where
  "split_str sep [] = [[]]"
| "split_str sep (c # cs) =
     (if c = sep then [] # split_str sep cs
      else (case split_str sep cs of
              [] \<Rightarrow> [[c]]
            | w # ws \<Rightarrow> (c # w) # ws))"

section \<open>Documents\<close>

text \<open>
  A specification document is the value \<open>JSON.parse\<close> or the YAML loader returns, or
  an object of the same shape handed over by the caller. An object is the list of its
  entries in enumeration order, with pairwise distinct keys. Numbers are integers.
\<close>

datatype json =
    JNull
  | JBool bool
  | JNum int
  | JStr string
  | JArr "json list"
  | JObj "(string \<times> json) list"

text \<open>
  A value met while following a pointer is a piece of the document or an object of
  the runtime (a built-in function or prototype object), which is not document content.
\<close>

datatype jsval = Data json | Native string

datatype error =
    Error string
  | TypeError
  | RangeError

fun truthy :: "json \<Rightarrow> bool" where
  "truthy JNull = False"
| "truthy (JBool b) = b"
| "truthy (JNum n) = (n \<noteq> 0)"
| "truthy (JStr s) = (s \<noteq> [])"
| "truthy (JArr xs) = True"
| "truthy (JObj kvs) = True"

fun truthy_val :: "jsval \<Rightarrow> bool" where
  "truthy_val (Data v) = truthy v"
| "truthy_val (Native n) = True"

text \<open>An array index as a property name: decimal digits without a leading zero.\<close>

definition arrayIndex :: "string \<Rightarrow> nat option" where
  "arrayIndex s =
     (if s = [] \<or> \<not> list_all isDigit s \<or> (hd s = CHR ''0'' \<and> length s > 1) then None
      else Some (foldl (\<lambda>n c. 10 * n + ((of_char c :: nat) - 48)) 0 s))"

text \<open>
  The own members of a value: the entries of an object, the elements and the length of
  an array, the characters and the length of a string. Numbers and booleans have none.
\<close>

fun ownProp :: "json \<Rightarrow> string \<Rightarrow> json option" where
  "ownProp (JObj kvs) k = map_of kvs k"
| "ownProp (JArr xs) k =
     (if k = ''length'' then Some (JNum (int (length xs)))
      else (case arrayIndex k of
              None \<Rightarrow> None
            | Some i \<Rightarrow> if i < length xs then Some (xs ! i) else None))"
| "ownProp (JStr s) k =
     (if k = ''length'' then Some (JNum (int (length s)))
      else (case arrayIndex k of
              None \<Rightarrow> None
            | Some i \<Rightarrow> if i < length s then Some (JStr [s ! i]) else None))"
| "ownProp v k = None"

text \<open>
  \<open>current[segment]\<close>: an own member if there is one; otherwise the member the value
  inherits from the runtime's prototype objects, given by \<open>inh\<close> (\<open>None\<close> when the
  runtime has no member of that name either, so that the expression is
  \<open>undefined\<close>). Reading a member of \<open>null\<close> raises a type error.
\<close>

type_synonym runtime = "jsval \<Rightarrow> string \<Rightarrow> jsval option"

fun getProp :: "runtime \<Rightarrow> jsval \<Rightarrow> string \<Rightarrow> error + jsval option" where
  "getProp inh (Data JNull) k = Inl TypeError"
| "getProp inh (Data v) k =
     (case ownProp v k of
        Some x \<Rightarrow> Inr (Some (Data x))
      | None \<Rightarrow> Inr (inh (Data v) k))"
| "getProp inh (Native n) k = Inr (inh (Native n) k)"

text \<open>
  The members every plain object inherits from \<open>Object.prototype\<close>. This is the part
  of the runtime that the examples below evaluate; the general results hold for every
  \<open>inh\<close>.
\<close>

definition objectPrototypeNames :: "string list" where
  "objectPrototypeNames =
     [''constructor'', ''hasOwnProperty'', ''isPrototypeOf'', ''propertyIsEnumerable'',
      ''toLocaleString'', ''toString'', ''valueOf'', ''__proto__'',
      ''__defineGetter__'', ''__defineSetter__'', ''__lookupGetter__'', ''__lookupSetter__'']"

fun objectPrototype :: runtime where
  "objectPrototype (Data (JObj kvs)) k =
     (if k \<in> set objectPrototypeNames then Some (Native k) else None)"
| "objectPrototype v k = None"

definition noRuntime :: runtime where
  "noRuntime v k = None"

section \<open>Reference resolver\<close>

text \<open>
  \<^verbatim>\<open>typeof item === "object" && item !== null && "$ref" in item\<close>. In the
  model only an object has a member of that name: no array index, string member or
  runtime object is called \<open>$ref\<close>.
\<close>

fun hasRef :: "json \<Rightarrow> bool" where
  "hasRef (JObj kvs) = (map_of kvs ''$ref'' \<noteq> None)"
| "hasRef v = False"

definition unresolved :: "string \<Rightarrow> error" where
  "unresolved ref = Error (''Unable to resolve reference: '' @ ref)"

text \<open>The loop over the segments: one member read per segment, and a throw on a falsy value.\<close>

fun descend :: "runtime \<Rightarrow> string \<Rightarrow> jsval \<Rightarrow> string list \<Rightarrow> error + jsval" where
  "descend inh ref current [] = Inr current"
| "descend inh ref current (segment # rest) =
     (case getProp inh current segment of
        Inl e \<Rightarrow> Inl e
      | Inr None \<Rightarrow> Inl (unresolved ref)
      | Inr (Some v) \<Rightarrow> if truthy_val v then descend inh ref v rest else Inl (unresolved ref))"

definition refPath :: "string \<Rightarrow> string list" where
  "refPath ref = split_str CHR ''/'' (replace_str ref ''#/'' [])"

text \<open>
  \<open>resolveReference(item, spec)\<close>. A \<open>$ref\<close> member that is not a string has no
  \<open>replace\<close> method: a type error.
\<close>

definition resolveReference :: "runtime \<Rightarrow> json \<Rightarrow> json \<Rightarrow> error + jsval" where
  "resolveReference inh item spec =
     (if hasRef item then
        (case ownProp item ''$ref'' of
           Some (JStr ref) \<Rightarrow> descend inh ref (Data spec) (refPath ref)
         | _ \<Rightarrow> Inl TypeError)
      else Inr (Data item))"

section \<open>Normalized model\<close>

datatype HttpMethod = Get | Post | Put | Delete | Patch | Options | Head | Trace

fun methodKey :: "HttpMethod \<Rightarrow> string" where
  "methodKey Get = ''get''"
| "methodKey Post = ''post''"
| "methodKey Put = ''put''"
| "methodKey Delete = ''delete''"
| "methodKey Patch = ''patch''"
| "methodKey Options = ''options''"
| "methodKey Head = ''head''"
| "methodKey Trace = ''trace''"

text \<open>
  The normalized types of \<open>types.ts\<close>. A schema's scalar members (\<open>type\<close>, \<open>format\<close>,
  \<open>enum\<close>, ...) are copied from the document as they are and kept as raw values, one
  entry per member, \<open>None\<close> for \<open>undefined\<close>.
\<close>

datatype NormalizedSchema =
  NormalizedSchema
    (ns_scalars: "(string \<times> json option) list")
    (ns_properties: "(string \<times> NormalizedSchema) list option")
    (ns_items: "NormalizedSchema option")
    (ns_additionalProperties: "(bool + NormalizedSchema) option")
    (ns_allOf: "NormalizedSchema list option")
    (ns_oneOf: "NormalizedSchema list option")
    (ns_anyOf: "NormalizedSchema list option")

record NormalizedParameter =
  np_name :: string
  np_in :: string
  np_description :: "string option"
  np_required :: bool
  np_deprecated :: "bool option"
  np_schema :: "NormalizedSchema option"
  np_example :: "json option"

record NormalizedMediaType =
  mt_mediaType :: string
  mt_schema :: "NormalizedSchema option"
  mt_example :: "json option"
  mt_examples :: "(string \<times> json) list option"

record NormalizedRequestBody =
  rb_description :: "string option"
  rb_required :: bool
  rb_content :: "NormalizedMediaType list"

record NormalizedHeader =
  nh_name :: string
  nh_description :: "string option"
  nh_required :: bool
  nh_schema :: "NormalizedSchema option"
  nh_example :: "json option"

record NormalizedResponse =
  rs_statusCode :: string
  rs_description :: "string option"
  rs_content :: "NormalizedMediaType list option"
  rs_headers :: "(string \<times> NormalizedHeader) list option"

record NormalizedEndpoint =
  ep_id :: string
  ep_method :: HttpMethod
  ep_path :: string
  ep_summary :: "string option"
  ep_description :: "string option"
  ep_operationId :: "string option"
  ep_tags :: "string list option"
  ep_parameters :: "NormalizedParameter list"
  ep_requestBody :: "NormalizedRequestBody option"
  ep_responses :: "NormalizedResponse list"
  ep_deprecated :: "bool option"
  ep_security :: "json option"

record ParsedApiSpec =
  ps_info :: "json option"
  ps_servers :: json
  ps_endpoints :: "NormalizedEndpoint list"
  ps_schemas :: "(string \<times> NormalizedSchema) list"
  ps_tags :: json
  ps_securitySchemes :: "json option"

section \<open>Normalizer\<close>

text \<open>
  The normalizer reads an untyped document at the types that \<open>types.ts\<close> declares for
  it. Truthiness tests are modelled as the runtime performs them. Where the document
  holds a value of another type than the declared one, the runtime raises a type error
  or carries on with the ill-typed value; the model follows neither and answers
  \<open>IllTyped\<close>. A thrown error is \<open>Threw\<close>. The depth of the recursion over schemas is
  bounded by the stack: going deeper than \<open>depth\<close> raises a range error, which is what
  happens on a schema that refers to itself.
\<close>

datatype failure = Threw error | IllTyped

definition bind :: "failure + 'a \<Rightarrow> ('a \<Rightarrow> failure + 'b) \<Rightarrow> failure + 'b" where
  "bind m f = (case m of Inl e \<Rightarrow> Inl e | Inr x \<Rightarrow> f x)"

fun mapM :: "('a \<Rightarrow> failure + 'b) \<Rightarrow> 'a list \<Rightarrow> failure + 'b list" where
  "mapM f [] = Inr []"
| "mapM f (x # xs) = bind (f x) (\<lambda>y. bind (mapM f xs) (\<lambda>ys. Inr (y # ys)))"

text \<open>\<open>c ? f(c) : undefined\<close>\<close>

definition whenTruthy :: "json option \<Rightarrow> (json \<Rightarrow> failure + 'a) \<Rightarrow> failure + 'a option" where
  "whenTruthy c f =
     (case c of
        None \<Rightarrow> Inr None
      | Some v \<Rightarrow> if truthy v then bind (f v) (\<lambda>y. Inr (Some y)) else Inr None)"

text \<open>Reads at a declared type.\<close>

definition asObject :: "json \<Rightarrow> failure + (string \<times> json) list" where
  "asObject v = (case v of JObj kvs \<Rightarrow> Inr kvs | _ \<Rightarrow> Inl IllTyped)"

definition asArray :: "json \<Rightarrow> failure + json list" where
  "asArray v = (case v of JArr xs \<Rightarrow> Inr xs | _ \<Rightarrow> Inl IllTyped)"

definition asString :: "json \<Rightarrow> failure + string" where
  "asString v = (case v of JStr s \<Rightarrow> Inr s | _ \<Rightarrow> Inl IllTyped)"

definition optString :: "json option \<Rightarrow> failure + string option" where
  "optString c = (case c of None \<Rightarrow> Inr None | Some v \<Rightarrow> bind (asString v) (\<lambda>s. Inr (Some s)))"

definition reqString :: "json option \<Rightarrow> failure + string" where
  "reqString c = (case c of None \<Rightarrow> Inl IllTyped | Some v \<Rightarrow> asString v)"

definition optStrings :: "json option \<Rightarrow> failure + string list option" where
  "optStrings c =
     (case c of
        None \<Rightarrow> Inr None
      | Some v \<Rightarrow> bind (asArray v) (\<lambda>xs. bind (mapM asString xs) (\<lambda>ss. Inr (Some ss))))"

text \<open>\<open>c || false\<close> at type boolean.\<close>

definition orFalse :: "json option \<Rightarrow> failure + bool" where
  "orFalse c =
     (case c of
        None \<Rightarrow> Inr False
      | Some v \<Rightarrow> if \<not> truthy v then Inr False
                 else (case v of JBool b \<Rightarrow> Inr b | _ \<Rightarrow> Inl IllTyped))"

text \<open>A reference resolved to a node of the document that is an object.\<close>

definition resolveObject :: "runtime \<Rightarrow> json \<Rightarrow> json \<Rightarrow> failure + (string \<times> json) list" where
  "resolveObject inh item spec =
     (case resolveReference inh item spec of
        Inl e \<Rightarrow> Inl (Threw e)
      | Inr (Data (JObj kvs)) \<Rightarrow> Inr kvs
      | Inr _ \<Rightarrow> Inl IllTyped)"

definition schemaScalarNames :: "string list" where
  "schemaScalarNames =
     [''type'', ''format'', ''description'', ''example'', ''enum'', ''required'', ''nullable'',
      ''deprecated'', ''title'', ''default'', ''minimum'', ''maximum'', ''minLength'',
      ''maxLength'', ''pattern'', ''minItems'', ''maxItems'', ''uniqueItems'']"

fun normalizeSchema :: "runtime \<Rightarrow> nat \<Rightarrow> json \<Rightarrow> json \<Rightarrow> failure + NormalizedSchema" where
  "normalizeSchema inh 0 schema spec = Inl (Threw RangeError)"
| "normalizeSchema inh (Suc depth) schema spec =
     bind (resolveObject inh schema spec) (\<lambda>resolved.
     bind (whenTruthy (map_of resolved ''properties'') (\<lambda>v.
             bind (asObject v) (mapM (\<lambda>(name, prop).
               bind (normalizeSchema inh depth prop spec) (\<lambda>n. Inr (name, n)))))) (\<lambda>properties.
     bind (whenTruthy (map_of resolved ''items'') (\<lambda>v. normalizeSchema inh depth v spec)) (\<lambda>items.
     bind (case map_of resolved ''additionalProperties'' of
             None \<Rightarrow> Inr None
           | Some (JBool b) \<Rightarrow> Inr (Some (Inl b))
           | Some v \<Rightarrow> bind (normalizeSchema inh depth v spec) (\<lambda>n. Inr (Some (Inr n)))) (\<lambda>additional.
     bind (whenTruthy (map_of resolved ''allOf'') (\<lambda>v.
             bind (asArray v) (mapM (\<lambda>s. normalizeSchema inh depth s spec)))) (\<lambda>allOf.
     bind (whenTruthy (map_of resolved ''oneOf'') (\<lambda>v.
             bind (asArray v) (mapM (\<lambda>s. normalizeSchema inh depth s spec)))) (\<lambda>oneOf.
     bind (whenTruthy (map_of resolved ''anyOf'') (\<lambda>v.
             bind (asArray v) (mapM (\<lambda>s. normalizeSchema inh depth s spec)))) (\<lambda>anyOf.
     Inr (NormalizedSchema (map (\<lambda>k. (k, map_of resolved k)) schemaScalarNames)
            properties items additional allOf oneOf anyOf))))))))"

definition normalizeMediaType ::
  "runtime \<Rightarrow> nat \<Rightarrow> string \<Rightarrow> json \<Rightarrow> json \<Rightarrow> failure + NormalizedMediaType" where
  "normalizeMediaType inh depth mediaType content spec =
     bind (asObject content) (\<lambda>c.
     bind (whenTruthy (map_of c ''schema'') (\<lambda>v. normalizeSchema inh depth v spec)) (\<lambda>schema.
     bind (whenTruthy (map_of c ''examples'') (\<lambda>v.
             bind (asObject v) (mapM (\<lambda>(name, example).
               bind (resolveObject inh example spec) (\<lambda>r.
               Inr (name, (case map_of r ''value'' of
                             Some x \<Rightarrow> if truthy x then x else example
                           | None \<Rightarrow> example))))))) (\<lambda>examples.
     Inr \<lparr>mt_mediaType = mediaType, mt_schema = schema, mt_example = map_of c ''example'',
          mt_examples = examples\<rparr>)))"

definition normalizeContent ::
  "runtime \<Rightarrow> nat \<Rightarrow> json \<Rightarrow> json \<Rightarrow> failure + NormalizedMediaType list" where
  "normalizeContent inh depth content spec =
     bind (asObject content)
       (mapM (\<lambda>(mediaType, c). normalizeMediaType inh depth mediaType c spec))"

definition normalizeParameters ::
  "runtime \<Rightarrow> nat \<Rightarrow> json list \<Rightarrow> json \<Rightarrow> failure + NormalizedParameter list" where
  "normalizeParameters inh depth parameters spec =
     mapM (\<lambda>param.
       bind (resolveObject inh param spec) (\<lambda>resolved.
       bind (reqString (map_of resolved ''name'')) (\<lambda>name.
       bind (reqString (map_of resolved ''in'')) (\<lambda>loc.
       bind (optString (map_of resolved ''description'')) (\<lambda>description.
       bind (orFalse (map_of resolved ''required'')) (\<lambda>required.
       bind (orFalse (map_of resolved ''deprecated'')) (\<lambda>deprecated.
       bind (whenTruthy (map_of resolved ''schema'') (\<lambda>v. normalizeSchema inh depth v spec))
         (\<lambda>schema.
       Inr \<lparr>np_name = name, np_in = loc, np_description = description,
            np_required = required, np_deprecated = Some deprecated, np_schema = schema,
            np_example = map_of resolved ''example''\<rparr>)))))))) parameters"

definition normalizeRequestBody ::
  "runtime \<Rightarrow> nat \<Rightarrow> json \<Rightarrow> json \<Rightarrow> failure + NormalizedRequestBody" where
  "normalizeRequestBody inh depth requestBody spec =
     bind (resolveObject inh requestBody spec) (\<lambda>resolved.
     bind (optString (map_of resolved ''description'')) (\<lambda>description.
     bind (orFalse (map_of resolved ''required'')) (\<lambda>required.
     bind (case map_of resolved ''content'' of
             None \<Rightarrow> Inl (Threw TypeError)
           | Some c \<Rightarrow> normalizeContent inh depth c spec) (\<lambda>content.
     Inr \<lparr>rb_description = description, rb_required = required, rb_content = content\<rparr>))))"

definition normalizeHeader ::
  "runtime \<Rightarrow> nat \<Rightarrow> string \<Rightarrow> json \<Rightarrow> json \<Rightarrow> failure + (string \<times> NormalizedHeader)" where
  "normalizeHeader inh depth name header spec =
     bind (resolveObject inh header spec) (\<lambda>resolved.
     bind (optString (map_of resolved ''description'')) (\<lambda>description.
     bind (orFalse (map_of resolved ''required'')) (\<lambda>required.
     bind (whenTruthy (map_of resolved ''schema'') (\<lambda>v. normalizeSchema inh depth v spec))
       (\<lambda>schema.
     Inr (name, \<lparr>nh_name = name, nh_description = description, nh_required = required,
                 nh_schema = schema, nh_example = map_of resolved ''example''\<rparr>)))))"

definition normalizeResponses ::
  "runtime \<Rightarrow> nat \<Rightarrow> json option \<Rightarrow> json \<Rightarrow> failure + NormalizedResponse list" where
  "normalizeResponses inh depth responses spec =
     (case responses of
        None \<Rightarrow> Inl (Threw TypeError)
      | Some rs \<Rightarrow>
          bind (asObject rs) (mapM (\<lambda>(statusCode, response).
            bind (resolveObject inh response spec) (\<lambda>resolved.
            bind (optString (map_of resolved ''description'')) (\<lambda>description.
            bind (whenTruthy (map_of resolved ''content'')
                    (\<lambda>c. normalizeContent inh depth c spec)) (\<lambda>content.
            bind (whenTruthy (map_of resolved ''headers'') (\<lambda>h.
                    bind (asObject h)
                      (mapM (\<lambda>(name, header). normalizeHeader inh depth name header spec))))
              (\<lambda>headers.
            Inr \<lparr>rs_statusCode = statusCode, rs_description = description,
                 rs_content = content, rs_headers = headers\<rparr>)))))))"

text \<open>
  \<^verbatim>\<open>path.replace(/[^a-zA-Z0-9]/g, "_")\<close>: every character that is not a letter or
  a digit becomes an underscore.
\<close>

definition replaceNonAlnum :: "string \<Rightarrow> string" where
  "replaceNonAlnum s = map (\<lambda>c. if isUpper c \<or> isLower c \<or> isDigit c then c else CHR ''_'') s"

definition generateEndpointId :: "HttpMethod \<Rightarrow> string \<Rightarrow> string option \<Rightarrow> string" where
  "generateEndpointId m path operationId =
     (case operationId of
        Some oid \<Rightarrow> if oid \<noteq> [] then oid
                   else toUpperCase (methodKey m) @ ''_'' @ replaceNonAlnum path
      | None \<Rightarrow> toUpperCase (methodKey m) @ ''_'' @ replaceNonAlnum path)"

definition normalizeEndpoint ::
  "runtime \<Rightarrow> nat \<Rightarrow> string \<Rightarrow> HttpMethod \<Rightarrow> json \<Rightarrow> json \<Rightarrow> failure + NormalizedEndpoint" where
  "normalizeEndpoint inh depth path m operation spec =
     bind (asObject operation) (\<lambda>op.
     bind (optString (map_of op ''operationId'')) (\<lambda>operationId.
     bind (optString (map_of op ''summary'')) (\<lambda>summary.
     bind (optString (map_of op ''description'')) (\<lambda>description.
     bind (optStrings (map_of op ''tags'')) (\<lambda>tags.
     bind (case map_of op ''parameters'' of
             None \<Rightarrow> Inr []
           | Some v \<Rightarrow> if truthy v then asArray v else Inr []) (\<lambda>params.
     bind (normalizeParameters inh depth params spec) (\<lambda>parameters.
     bind (whenTruthy (map_of op ''requestBody'')
             (\<lambda>v. normalizeRequestBody inh depth v spec)) (\<lambda>requestBody.
     bind (normalizeResponses inh depth (map_of op ''responses'') spec) (\<lambda>responses.
     bind (orFalse (map_of op ''deprecated'')) (\<lambda>deprecated.
     Inr \<lparr>ep_id = generateEndpointId m path operationId, ep_method = m, ep_path = path,
          ep_summary = summary, ep_description = description, ep_operationId = operationId,
          ep_tags = tags, ep_parameters = parameters, ep_requestBody = requestBody,
          ep_responses = responses, ep_deprecated = Some deprecated,
          ep_security = map_of op ''security''\<rparr>))))))))))"

definition httpMethods :: "HttpMethod list" where
  "httpMethods = [Get, Post, Put, Delete, Patch, Options, Head, Trace]"

text \<open>The inner loop of \<open>extractEndpoints\<close>: the methods of one path item, in the fixed order.\<close>

fun pathItemEndpoints ::
  "runtime \<Rightarrow> nat \<Rightarrow> string \<Rightarrow> (string \<times> json) list \<Rightarrow> json \<Rightarrow> HttpMethod list
     \<Rightarrow> failure + NormalizedEndpoint list" where
  "pathItemEndpoints inh depth path pathItem spec [] = Inr []"
| "pathItemEndpoints inh depth path pathItem spec (m # ms) =
     (case map_of pathItem (methodKey m) of
        None \<Rightarrow> pathItemEndpoints inh depth path pathItem spec ms
      | Some operation \<Rightarrow>
          if truthy operation then
            bind (normalizeEndpoint inh depth path m operation spec) (\<lambda>endpoint.
            bind (pathItemEndpoints inh depth path pathItem spec ms) (\<lambda>rest.
            Inr (endpoint # rest)))
          else pathItemEndpoints inh depth path pathItem spec ms)"

text \<open>The outer loop: the path items in the enumeration order of \<open>paths\<close>.\<close>

fun pathsEndpoints ::
  "runtime \<Rightarrow> nat \<Rightarrow> (string \<times> json) list \<Rightarrow> json \<Rightarrow> failure + NormalizedEndpoint list" where
  "pathsEndpoints inh depth [] spec = Inr []"
| "pathsEndpoints inh depth ((path, pathItem) # rest) spec =
     bind (asObject pathItem) (\<lambda>item.
     bind (pathItemEndpoints inh depth path item spec httpMethods) (\<lambda>here.
     bind (pathsEndpoints inh depth rest spec) (\<lambda>others.
     Inr (here @ others))))"

definition specPaths :: "json \<Rightarrow> failure + (string \<times> json) list" where
  "specPaths spec =
     bind (asObject spec) (\<lambda>s.
       case map_of s ''paths'' of
         None \<Rightarrow> Inl (Threw TypeError)
       | Some p \<Rightarrow> asObject p)"

definition extractEndpoints :: "runtime \<Rightarrow> nat \<Rightarrow> json \<Rightarrow> failure + NormalizedEndpoint list" where
  "extractEndpoints inh depth spec =
     bind (specPaths spec) (\<lambda>paths. pathsEndpoints inh depth paths spec)"

definition findEndpointById :: "NormalizedEndpoint list \<Rightarrow> string \<Rightarrow> NormalizedEndpoint option" where
  "findEndpointById endpoints i = find (\<lambda>endpoint. ep_id endpoint = i) endpoints"

section \<open>Search and filter engine\<close>

text \<open>
  Scores are modelled as real numbers. \<open>fuzzyMatch\<close> itself only returns \<open>1\<close>, \<open>0\<close> and
  \<open>(n / n) * 0.7\<close>, which floating-point arithmetic computes without rounding beyond that
  of the literal \<open>0.7\<close>.
\<close>

record SearchFilters =
  sf_query :: "string option"
  sf_methods :: "HttpMethod list option"
  sf_tags :: "string list option"
  sf_deprecated :: "bool option"
  sf_hasParameters :: "bool option"
  sf_hasRequestBody :: "bool option"
  sf_responseStatusCodes :: "string list option"

datatype SearchField =
  Summary | Description | OperationId | Path | Tags | Parameters | Responses

record SearchOptions =
  so_searchFields :: "SearchField list option"
  so_caseSensitive :: "bool option"
  so_fuzzySearch :: "bool option"
  so_minQueryLength :: "int option"

record SearchResult =
  sr_endpoint :: NormalizedEndpoint
  sr_score :: real
  sr_matchedFields :: "string list"
  sr_highlights :: "(string \<times> string) list"

text \<open>The defaults of the options.\<close>

definition searchFields :: "SearchOptions \<Rightarrow> SearchField list" where
  "searchFields options =
     (case so_searchFields options of
        None \<Rightarrow> [Summary, Description, OperationId, Path, Tags, Parameters, Responses]
      | Some fs \<Rightarrow> fs)"

definition caseSensitive :: "SearchOptions \<Rightarrow> bool" where
  "caseSensitive options = (case so_caseSensitive options of None \<Rightarrow> False | Some b \<Rightarrow> b)"

definition fuzzySearch :: "SearchOptions \<Rightarrow> bool" where
  "fuzzySearch options = (case so_fuzzySearch options of None \<Rightarrow> False | Some b \<Rightarrow> b)"

definition minQueryLength :: "SearchOptions \<Rightarrow> int" where
  "minQueryLength options = (case so_minQueryLength options of None \<Rightarrow> 1 | Some n \<Rightarrow> n)"

definition normalizeText :: "SearchOptions \<Rightarrow> string \<Rightarrow> string" where
  "normalizeText options t = (if caseSensitive options then t else toLowerCase t)"

text \<open>
  The loop of \<open>fuzzyMatch\<close> over the characters of the text: \<open>queryIndex\<close> is the next
  character of the query to find, \<open>matches\<close> counts the characters found.
\<close>

fun fuzzyLoop :: "string \<Rightarrow> string \<Rightarrow> nat \<Rightarrow> nat \<Rightarrow> nat \<times> nat" where
  "fuzzyLoop [] q queryIndex matches = (queryIndex, matches)"
| "fuzzyLoop (c # cs) q queryIndex matches =
     (if queryIndex < length q then
        (if c = q ! queryIndex then fuzzyLoop cs q (queryIndex + 1) (matches + 1)
         else fuzzyLoop cs q queryIndex matches)
      else (queryIndex, matches))"

definition fuzzyMatch :: "SearchOptions \<Rightarrow> string \<Rightarrow> string \<Rightarrow> real" where
  "fuzzyMatch options query t =
     (let normalizedQuery = normalizeText options query;
          normalizedText = normalizeText options t
      in if includes_str normalizedText normalizedQuery then 1
         else if \<not> fuzzySearch options then 0
         else (case fuzzyLoop normalizedText normalizedQuery 0 0 of
                 (queryIndex, matches) \<Rightarrow>
                   if queryIndex = length normalizedQuery
                   then (real matches / real (length normalizedQuery)) * (7 / 10)
                   else 0))"

text \<open>Assignment to a member of an object: an existing key keeps its place.\<close>

fun objSet :: "string \<Rightarrow> 'v \<Rightarrow> (string \<times> 'v) list \<Rightarrow> (string \<times> 'v) list" where
  "objSet k v [] = [(k, v)]"
| "objSet k v ((k', v') # kvs) = (if k = k' then (k, v) # kvs else (k', v') # objSet k v kvs)"

fun join :: "string \<Rightarrow> string list \<Rightarrow> string" where
  "join sep [] = []"
| "join sep [s] = s"
| "join sep (s # t # ss) = s @ sep @ join sep (t # ss)"

text \<open>
  The three accumulators of \<open>searchInEndpoint\<close>: the matched fields, the total score
  and the highlights.
\<close>

type_synonym matchAcc = "string list \<times> real \<times> (string \<times> string) list"

definition addMatch :: "string \<Rightarrow> real \<Rightarrow> string \<Rightarrow> matchAcc \<Rightarrow> matchAcc" where
  "addMatch field weighted highlight acc =
     (case acc of (matchedFields, totalScore, highlights) \<Rightarrow>
        (matchedFields @ [field], totalScore + weighted, objSet field highlight highlights))"

text \<open>A field that is a text: searched when it is among the fields to search.\<close>

definition searchField ::
  "SearchOptions \<Rightarrow> string \<Rightarrow> SearchField \<Rightarrow> string \<Rightarrow> real \<Rightarrow> string \<Rightarrow> matchAcc \<Rightarrow> matchAcc" where
  "searchField options query field name weight t acc =
     (if field \<in> set (searchFields options) then
        (let score = fuzzyMatch options query t
         in if score > 0 then addMatch name (score * weight) t acc else acc)
      else acc)"

text \<open>
  The summary, the description and the operation id are optional: they are searched
  when present and not empty. The path is always searched.
\<close>

definition searchText ::
  "SearchOptions \<Rightarrow> string \<Rightarrow> SearchField \<Rightarrow> string \<Rightarrow> real \<Rightarrow> string option \<Rightarrow> matchAcc \<Rightarrow> matchAcc" where
  "searchText options query field name weight content acc =
     (case content of
        None \<Rightarrow> acc
      | Some t \<Rightarrow> if t \<noteq> [] then searchField options query field name weight t acc else acc)"

definition searchTags :: "SearchOptions \<Rightarrow> string \<Rightarrow> string list option \<Rightarrow> matchAcc \<Rightarrow> matchAcc" where
  "searchTags options query tags acc =
     (case tags of
        None \<Rightarrow> acc
      | Some ts \<Rightarrow>
          if Tags \<in> set (searchFields options) then
            (case find (\<lambda>tag. fuzzyMatch options query tag > 0) ts of
               None \<Rightarrow> acc
             | Some tag \<Rightarrow>
                 addMatch ''tags'' (fuzzyMatch options query tag * (13 / 10)) (join '', '' ts) acc)
          else acc)"

definition paramScores :: "SearchOptions \<Rightarrow> string \<Rightarrow> NormalizedParameter \<Rightarrow> real \<times> real" where
  "paramScores options query param =
     (fuzzyMatch options query (np_name param),
      (case np_description param of
         None \<Rightarrow> 0
       | Some d \<Rightarrow> if d \<noteq> [] then fuzzyMatch options query d else 0))"

definition searchParameters ::
  "SearchOptions \<Rightarrow> string \<Rightarrow> NormalizedParameter list \<Rightarrow> matchAcc \<Rightarrow> matchAcc" where
  "searchParameters options query params acc =
     (if Parameters \<in> set (searchFields options) then
        (case find (\<lambda>param. fst (paramScores options query param) > 0
                             \<or> snd (paramScores options query param) > 0) params of
           None \<Rightarrow> acc
         | Some param \<Rightarrow>
             addMatch ''parameters''
               ((fst (paramScores options query param) + snd (paramScores options query param))
                  * (12 / 10))
               (''Parameter: '' @ np_name param) acc)
      else acc)"

definition responseScore :: "SearchOptions \<Rightarrow> string \<Rightarrow> NormalizedResponse \<Rightarrow> real" where
  "responseScore options query response =
     (case rs_description response of
        None \<Rightarrow> 0
      | Some d \<Rightarrow> if d \<noteq> [] then fuzzyMatch options query d else 0)"

definition searchResponses ::
  "SearchOptions \<Rightarrow> string \<Rightarrow> NormalizedResponse list \<Rightarrow> matchAcc \<Rightarrow> matchAcc" where
  "searchResponses options query responses acc =
     (if Responses \<in> set (searchFields options) then
        (case find (\<lambda>response. responseScore options query response > 0) responses of
           None \<Rightarrow> acc
         | Some response \<Rightarrow>
             addMatch ''responses'' (responseScore options query response * (11 / 10))
               (rs_statusCode response @ '': '' @ (case rs_description response of
                                                  None \<Rightarrow> ''undefined''
                                                | Some d \<Rightarrow> d)) acc)
      else acc)"

definition searchInEndpoint ::
  "SearchOptions \<Rightarrow> NormalizedEndpoint \<Rightarrow> string \<Rightarrow> SearchResult option" where
  "searchInEndpoint options endpoint query =
     (if query = [] \<or> int (length query) < minQueryLength options then None
      else
        (case (searchResponses options query (ep_responses endpoint)
               (searchParameters options query (ep_parameters endpoint)
               (searchTags options query (ep_tags endpoint)
               (searchField options query Path ''path'' (17 / 10) (ep_path endpoint)
               (searchText options query OperationId ''operationId'' (18 / 10)
                  (ep_operationId endpoint)
               (searchText options query Description ''description'' (15 / 10)
                  (ep_description endpoint)
               (searchText options query Summary ''summary'' 2 (ep_summary endpoint)
                  ([], 0, [])))))))) of
           (matchedFields, totalScore, highlights) \<Rightarrow>
             if matchedFields = [] then None
             else Some \<lparr>sr_endpoint = endpoint,
                        sr_score = min (totalScore / real (length matchedFields)) 1,
                        sr_matchedFields = matchedFields,
                        sr_highlights = highlights\<rparr>))"

text \<open>
  \<open>Array.prototype.sort\<close> with a comparison function. The sort is stable, and for a
  consistent comparison function its result is determined: the one that inserting the
  elements from the right computes, each element in front of the first element that
  must not precede it.
\<close>

fun insertBy :: "('a \<Rightarrow> 'a \<Rightarrow> real) \<Rightarrow> 'a \<Rightarrow> 'a list \<Rightarrow> 'a list" where
  "insertBy cmp x [] = [x]"
| "insertBy cmp x (y # ys) = (if cmp x y \<le> 0 then x # y # ys else y # insertBy cmp x ys)"

definition sortBy :: "('a \<Rightarrow> 'a \<Rightarrow> real) \<Rightarrow> 'a list \<Rightarrow> 'a list" where
  "sortBy cmp xs = foldr (insertBy cmp) xs []"

definition byRelevance :: "SearchResult \<Rightarrow> SearchResult \<Rightarrow> real" where
  "byRelevance a b = sr_score b - sr_score a"

text \<open>The filters of \<open>filteredResults\<close>, each applied when it is set.\<close>

definition byMethods :: "SearchFilters \<Rightarrow> NormalizedEndpoint list \<Rightarrow> NormalizedEndpoint list" where
  "byMethods filters results =
     (case sf_methods filters of
        None \<Rightarrow> results
      | Some ms \<Rightarrow> if ms \<noteq> [] then filter (\<lambda>e. ep_method e \<in> set ms) results else results)"

definition byTags :: "SearchFilters \<Rightarrow> NormalizedEndpoint list \<Rightarrow> NormalizedEndpoint list" where
  "byTags filters results =
     (case sf_tags filters of
        None \<Rightarrow> results
      | Some ts \<Rightarrow>
          if ts \<noteq> [] then
            filter (\<lambda>e. case ep_tags e of
                           None \<Rightarrow> False
                         | Some tags \<Rightarrow> list_ex (\<lambda>tag. tag \<in> set ts) tags) results
          else results)"

definition byDeprecated :: "SearchFilters \<Rightarrow> NormalizedEndpoint list \<Rightarrow> NormalizedEndpoint list" where
  "byDeprecated filters results =
     (case sf_deprecated filters of
        None \<Rightarrow> results
      | Some d \<Rightarrow> filter (\<lambda>e. ep_deprecated e = Some d) results)"

definition byHasParameters ::
  "SearchFilters \<Rightarrow> NormalizedEndpoint list \<Rightarrow> NormalizedEndpoint list" where
  "byHasParameters filters results =
     (case sf_hasParameters filters of
        None \<Rightarrow> results
      | Some h \<Rightarrow> filter (\<lambda>e. if h then ep_parameters e \<noteq> [] else ep_parameters e = []) results)"

definition byHasRequestBody ::
  "SearchFilters \<Rightarrow> NormalizedEndpoint list \<Rightarrow> NormalizedEndpoint list" where
  "byHasRequestBody filters results =
     (case sf_hasRequestBody filters of
        None \<Rightarrow> results
      | Some h \<Rightarrow> filter (\<lambda>e. if h then ep_requestBody e \<noteq> None
                                else ep_requestBody e = None) results)"

definition byResponseStatusCodes ::
  "SearchFilters \<Rightarrow> NormalizedEndpoint list \<Rightarrow> NormalizedEndpoint list" where
  "byResponseStatusCodes filters results =
     (case sf_responseStatusCodes filters of
        None \<Rightarrow> results
      | Some codes \<Rightarrow>
          if codes \<noteq> [] then
            filter (\<lambda>e. list_ex (\<lambda>response. rs_statusCode response \<in> set codes)
                           (ep_responses e)) results
          else results)"

definition applyFilters :: "SearchFilters \<Rightarrow> NormalizedEndpoint list \<Rightarrow> NormalizedEndpoint list" where
  "applyFilters filters endpoints =
     byResponseStatusCodes filters
       (byHasRequestBody filters
         (byHasParameters filters
           (byDeprecated filters
             (byTags filters
               (byMethods filters endpoints)))))"

definition filteredResults ::
  "SearchOptions \<Rightarrow> SearchFilters \<Rightarrow> NormalizedEndpoint list \<Rightarrow> SearchResult list" where
  "filteredResults options filters endpoints =
     (let results = applyFilters filters endpoints
      in case sf_query filters of
           None \<Rightarrow> map (\<lambda>e. \<lparr>sr_endpoint = e, sr_score = 1, sr_matchedFields = [],
                               sr_highlights = []\<rparr>) results
         | Some query \<Rightarrow>
             if query \<noteq> [] \<and> int (length query) \<ge> minQueryLength options then
               sortBy byRelevance
                 (List.map_filter (\<lambda>e. searchInEndpoint options e query) results)
             else map (\<lambda>e. \<lparr>sr_endpoint = e, sr_score = 1, sr_matchedFields = [],
                                sr_highlights = []\<rparr>) results)"

section \<open>Parsing a specification text\<close>

text \<open>
  The two parsers are the platform's and the YAML library's. \<open>JSON.parse\<close> returns the
  value or throws an error with a message; \<open>yaml.load\<close> returns a value, or
  \<open>undefined\<close> for an empty document, or throws an error with a message.
\<close>

type_synonym jsonParser = "string \<Rightarrow> string + json"
type_synonym yamlLoader = "string \<Rightarrow> string + json option"

definition yamlObject :: "yamlLoader \<Rightarrow> string \<Rightarrow> string + json" where
  "yamlObject yamlLoad specString =
     (case yamlLoad specString of
        Inl message \<Rightarrow> Inl message
      | Inr (Some (JObj kvs)) \<Rightarrow> Inr (JObj kvs)
      | Inr (Some (JArr xs)) \<Rightarrow> Inr (JArr xs)
      | Inr _ \<Rightarrow> Inl ''Parsed YAML is not a valid object'')"

definition parseSpecString :: "jsonParser \<Rightarrow> yamlLoader \<Rightarrow> string \<Rightarrow> error + json" where
  "parseSpecString jsonParse yamlLoad specString =
     (case jsonParse specString of
        Inr v \<Rightarrow> Inr v
      | Inl jsonMessage \<Rightarrow>
          (case yamlObject yamlLoad specString of
             Inr v \<Rightarrow> Inr v
           | Inl yamlMessage \<Rightarrow>
               Inl (Error (''Failed to parse OpenAPI specification. Invalid JSON: ''
                           @ jsonMessage @ ''. Invalid YAML: '' @ yamlMessage))))"

datatype specInput = SpecText string | SpecObject json

definition extractSchemas ::
  "runtime \<Rightarrow> nat \<Rightarrow> (string \<times> json) list \<Rightarrow> json \<Rightarrow> failure + (string \<times> NormalizedSchema) list" where
  "extractSchemas inh depth s spec =
     (case map_of s ''components'' of
        Some (JObj components) \<Rightarrow>
          (case map_of components ''schemas'' of
             None \<Rightarrow> Inr []
           | Some schemas \<Rightarrow>
               if truthy schemas then
                 bind (asObject schemas) (mapM (\<lambda>(name, schema).
                   bind (normalizeSchema inh depth schema spec) (\<lambda>n. Inr (name, n))))
               else Inr [])
      | _ \<Rightarrow> Inr [])"

definition orEmptyArray :: "json option \<Rightarrow> json" where
  "orEmptyArray c = (case c of None \<Rightarrow> JArr [] | Some v \<Rightarrow> if truthy v then v else JArr [])"

definition parseOpenApi ::
  "jsonParser \<Rightarrow> yamlLoader \<Rightarrow> runtime \<Rightarrow> nat \<Rightarrow> specInput \<Rightarrow> failure + ParsedApiSpec" where
  "parseOpenApi jsonParse yamlLoad inh depth spec =
     bind (case spec of
             SpecText specString \<Rightarrow>
               (case parseSpecString jsonParse yamlLoad specString of
                  Inl e \<Rightarrow> Inl (Threw e)
                | Inr v \<Rightarrow> Inr v)
           | SpecObject v \<Rightarrow> Inr v) (\<lambda>parsedSpec.
     bind (extractEndpoints inh depth parsedSpec) (\<lambda>endpoints.
     bind (asObject parsedSpec) (\<lambda>s.
     bind (extractSchemas inh depth s parsedSpec) (\<lambda>schemas.
     Inr \<lparr>ps_info = map_of s ''info'',
          ps_servers = orEmptyArray (map_of s ''servers''),
          ps_endpoints = endpoints,
          ps_schemas = schemas,
          ps_tags = orEmptyArray (map_of s ''tags''),
          ps_securitySchemes =
            (case map_of s ''components'' of
               Some (JObj components) \<Rightarrow> map_of components ''securitySchemes''
             | _ \<Rightarrow> None)\<rparr>))))"

section \<open>Specification loader\<close>

text \<open>
  The loader hook. Its state is set through the four setters; the cache is shared by
  all hooks. A fetcher is asked for the text behind a URL and answers with the text or
  fails with a message; its answer may differ from call to call, so it is a function of
  the URL and of the number of fetches made before. The parser is \<open>parseOpenApi\<close>
  applied to a text or an object; the loader only sees whether it returns or throws,
  and the message of what it throws. Time passes while the loader sleeps between
  attempts. A call of \<open>loadSpec\<close> is described by the calls of the setters and the
  fetches, parses and sleeps it performs, in order; how the view layer groups setter
  calls into renders is not part of the model.
\<close>

record CacheEntry =
  ce_spec :: ParsedApiSpec
  ce_timestamp :: int

record world =
  w_cache :: "(string \<times> CacheEntry) list"
  w_now :: int
  w_fetches :: nat

type_synonym fetcher = "string \<Rightarrow> nat \<Rightarrow> string + string"
type_synonym parser = "specInput \<Rightarrow> string + ParsedApiSpec"

record ApiLoaderConfig =
  cfg_url :: "string option"
  cfg_spec :: "specInput option"
  cfg_cacheDuration :: "int option"
  cfg_fetcher :: "fetcher option"
  cfg_retries :: "int option"
  cfg_retryDelay :: "int option"

record loaderHook =
  lh_parse :: parser
  lh_defaultFetcher :: fetcher
  lh_initialConfig :: "ApiLoaderConfig option"

datatype event =
    SetLoading bool
  | SetError "string option"
  | SetCurrentUrl "string option"
  | SetSpec "ParsedApiSpec option"
  | Fetch string
  | Parse
  | Sleep int

text \<open>The defaults that the hook takes from its initial configuration.\<close>

definition hookSetting :: "loaderHook \<Rightarrow> (ApiLoaderConfig \<Rightarrow> 'a option) \<Rightarrow> 'a \<Rightarrow> 'a" where
  "hookSetting hook field dflt =
     (case lh_initialConfig hook of
        None \<Rightarrow> dflt
      | Some c \<Rightarrow> (case field c of None \<Rightarrow> dflt | Some v \<Rightarrow> v))"

text \<open>\<open>n || d\<close> on numbers.\<close>

definition orNumber :: "int option \<Rightarrow> int \<Rightarrow> int" where
  "orNumber c d = (case c of None \<Rightarrow> d | Some n \<Rightarrow> if n \<noteq> 0 then n else d)"

text \<open>
  The retry loop of \<open>loadFromUrl\<close> over the attempts that remain. It returns the
  outcome, the world and the events in the order in which they happened.
\<close>

fun attemptLoad ::
  "parser \<Rightarrow> fetcher \<Rightarrow> string \<Rightarrow> int \<Rightarrow> int \<Rightarrow> int list \<Rightarrow> string option \<Rightarrow> world
     \<Rightarrow> (string + ParsedApiSpec) \<times> world \<times> event list" where
  "attemptLoad parse fetchFn url maxRetries delay [] lastError w =
     (Inl (case lastError of None \<Rightarrow> ''Failed to load spec'' | Some message \<Rightarrow> message), w, [])"
| "attemptLoad parse fetchFn url maxRetries delay (attempt # rest) lastError w =
     (let fetched = w\<lparr>w_fetches := w_fetches w + 1\<rparr>;
          outcome = (case fetchFn url (w_fetches w) of
                       Inl message \<Rightarrow> (Inl message, [Fetch url])
                     | Inr specText \<Rightarrow> (parse (SpecText specText), [Fetch url, Parse]))
      in case outcome of
           (Inr parsedSpec, events) \<Rightarrow>
             (Inr parsedSpec,
              fetched\<lparr>w_cache := objSet url \<lparr>ce_spec = parsedSpec, ce_timestamp = w_now w\<rparr>
                                     (w_cache w)\<rparr>,
              events)
         | (Inl message, events) \<Rightarrow>
             if attempt < maxRetries then
               (case attemptLoad parse fetchFn url maxRetries delay rest (Some message)
                       (fetched\<lparr>w_now := w_now w + delay * 2 ^ nat attempt\<rparr>) of
                  (result, w', later) \<Rightarrow>
                    (result, w', events @ Sleep (delay * 2 ^ nat attempt) # later))
             else
               (case attemptLoad parse fetchFn url maxRetries delay rest (Some message) fetched of
                  (result, w', later) \<Rightarrow> (result, w', events @ later)))"

definition loadFromUrl ::
  "loaderHook \<Rightarrow> string \<Rightarrow> ApiLoaderConfig \<Rightarrow> world
     \<Rightarrow> (string + ParsedApiSpec) \<times> world \<times> event list" where
  "loadFromUrl hook url config w =
     (let cacheDuration = hookSetting hook cfg_cacheDuration (5 * 60 * 1000);
          fetcher = hookSetting hook cfg_fetcher (lh_defaultFetcher hook);
          retries = hookSetting hook cfg_retries 3;
          retryDelay = hookSetting hook cfg_retryDelay 1000
      in case map_of (w_cache w) url of
           Some cached \<Rightarrow>
             if w_now w - ce_timestamp cached < orNumber (cfg_cacheDuration config) cacheDuration
             then (Inr (ce_spec cached), w, [])
             else attemptLoad (lh_parse hook)
                    (case cfg_fetcher config of None \<Rightarrow> fetcher | Some f \<Rightarrow> f) url
                    (orNumber (cfg_retries config) retries)
                    (orNumber (cfg_retryDelay config) retryDelay)
                    [0 .. orNumber (cfg_retries config) retries] None w
         | None \<Rightarrow>
             attemptLoad (lh_parse hook)
               (case cfg_fetcher config of None \<Rightarrow> fetcher | Some f \<Rightarrow> f) url
               (orNumber (cfg_retries config) retries)
               (orNumber (cfg_retryDelay config) retryDelay)
               [0 .. orNumber (cfg_retries config) retries] None w)"

definition loadFromSpec :: "loaderHook \<Rightarrow> specInput \<Rightarrow> string + ParsedApiSpec" where
  "loadFromSpec hook specInput = lh_parse hook specInput"

text \<open>
  \<open>config.url\<close> and \<open>config.spec\<close> as conditions: a string counts when it is not
  empty, an object always.
\<close>

definition suppliedUrl :: "ApiLoaderConfig \<Rightarrow> string option" where
  "suppliedUrl config =
     (case cfg_url config of None \<Rightarrow> None | Some u \<Rightarrow> if u \<noteq> [] then Some u else None)"

definition suppliedSpec :: "ApiLoaderConfig \<Rightarrow> specInput option" where
  "suppliedSpec config =
     (case cfg_spec config of
        None \<Rightarrow> None
      | Some (SpecText s) \<Rightarrow> if s \<noteq> [] then Some (SpecText s) else None
      | Some (SpecObject v) \<Rightarrow> Some (SpecObject v))"

text \<open>The \<open>try\<close> block of \<open>loadSpec\<close>, up to the point where it has a specification or an error.\<close>

definition tryLoad ::
  "loaderHook \<Rightarrow> ApiLoaderConfig \<Rightarrow> world \<Rightarrow> (string + ParsedApiSpec) \<times> world \<times> event list" where
  "tryLoad hook config w =
     (case suppliedUrl config of
        Some url \<Rightarrow>
          (case loadFromUrl hook url config w of
             (result, w', events) \<Rightarrow> (result, w', SetCurrentUrl (Some url) # events))
      | None \<Rightarrow>
          (case suppliedSpec config of
             Some specInput \<Rightarrow> (loadFromSpec hook specInput, w, [SetCurrentUrl None, Parse])
           | None \<Rightarrow> (Inl ''Either url or spec must be provided'', w, [])))"

definition loadSpec :: "loaderHook \<Rightarrow> ApiLoaderConfig \<Rightarrow> world \<Rightarrow> event list \<times> world" where
  "loadSpec hook config w =
     (case tryLoad hook config w of
        (Inr parsedSpec, w', events) \<Rightarrow>
          ([SetLoading True, SetError None] @ events
             @ [SetSpec (Some parsedSpec), SetLoading False], w')
      | (Inl errorMessage, w', events) \<Rightarrow>
          ([SetLoading True, SetError None] @ events
             @ [SetError (Some errorMessage), SetSpec None, SetLoading False], w'))"

text \<open>The state of the hook, and what the setters do to it.\<close>

record loaderState =
  ls_spec :: "ParsedApiSpec option"
  ls_loading :: bool
  ls_error :: "string option"
  ls_currentUrl :: "string option"

fun setState :: "loaderState \<Rightarrow> event \<Rightarrow> loaderState" where
  "setState st (SetLoading b) = st\<lparr>ls_loading := b\<rparr>"
| "setState st (SetError e) = st\<lparr>ls_error := e\<rparr>"
| "setState st (SetCurrentUrl u) = st\<lparr>ls_currentUrl := u\<rparr>"
| "setState st (SetSpec s) = st\<lparr>ls_spec := s\<rparr>"
| "setState st e = st"

definition isLoadAttempt :: "event \<Rightarrow> bool" where
  "isLoadAttempt e = (case e of Fetch url \<Rightarrow> True | Parse \<Rightarrow> True | _ \<Rightarrow> False)"

text \<open>Examples for the loader: a parsed specification, a hook whose fetches all succeed.\<close>

definition emptyParsed :: ParsedApiSpec where
  "emptyParsed = \<lparr>ps_info = None, ps_servers = JArr [], ps_endpoints = [], ps_schemas = [],
     ps_tags = JArr [], ps_securitySchemes = None\<rparr>"

definition quietHook :: loaderHook where
  "quietHook = \<lparr>lh_parse = (\<lambda>input. Inr emptyParsed),
     lh_defaultFetcher = (\<lambda>url n. Inr ''{}''),
     lh_initialConfig = None\<rparr>"

definition freshWorld :: world where
  "freshWorld = \<lparr>w_cache = [], w_now = 0, w_fetches = 0\<rparr>"

definition noConfig :: ApiLoaderConfig where
  "noConfig = \<lparr>cfg_url = None, cfg_spec = None, cfg_cacheDuration = None, cfg_fetcher = None,
     cfg_retries = None, cfg_retryDelay = None\<rparr>"

definition idleState :: loaderState where
  "idleState = \<lparr>ls_spec = None, ls_loading = False, ls_error = None, ls_currentUrl = None\<rparr>"

section \<open>URL building\<close>

text \<open>\<open>String(value)\<close> on the values of a parameter record.\<close>

function showNat :: "nat \<Rightarrow> string" where
  "showNat n = (if n < 10 then [char_of (48 + n)] else showNat (n div 10) @ [char_of (48 + n mod 10)])"
  by pat_completeness auto
termination
  by (relation "measure id") auto

definition showInt :: "int \<Rightarrow> string" where
  "showInt i = (if i < 0 then CHR ''-'' # showNat (nat (- i)) else showNat (nat i))"

fun toStr :: "json \<Rightarrow> string" where
  "toStr JNull = ''null''"
| "toStr (JBool b) = (if b then ''true'' else ''false'')"
| "toStr (JNum n) = showInt n"
| "toStr (JStr s) = s"
| "toStr (JArr xs) = join '','' (map (\<lambda>x. if x = JNull then [] else toStr x) xs)"
| "toStr (JObj kvs) = ''[object Object]''"





text \<open>
  The platform's \<open>URL\<close> objects: the constructor (which throws on a text that is no
  URL), the two updates of the query and the serializer. They are a parameter of the
  builders.
\<close>

record 'u urlApi =
  newURL :: "string \<Rightarrow> string \<Rightarrow> 'u option"
  searchParamsSet :: "'u \<Rightarrow> string \<Rightarrow> string \<Rightarrow> 'u"
  searchParamsAppend :: "'u \<Rightarrow> string \<Rightarrow> string \<Rightarrow> 'u"
  urlToString :: "'u \<Rightarrow> string"

definition placeholder :: "string \<Rightarrow> string" where
  "placeholder key = ''{'' @ key @ ''}''"

subsection \<open>Request execution engine\<close>






subsection \<open>Code snippet generator\<close>

datatype AuthType = ApiKeyAuth | BearerAuth | BasicAuth | OAuth2Auth

datatype ApiKeyPlace = InHeader | InQuery

record ApiKey =
  ak_name :: string
  ak_value :: string
  ak_in :: ApiKeyPlace

record SnippetAuth =
  au_type :: AuthType
  au_apiKey :: "ApiKey option"
  au_bearer :: "string option"
  au_basic :: "(string \<times> string) option"
  au_oauth2 :: "string option"

record SnippetParameters =
  sp_pathParams :: "(string \<times> json) list option"
  sp_queryParams :: "(string \<times> json) list option"
  sp_headers :: "(string \<times> string) list option"
  sp_body :: "json option"

record CodeSnippetOptions =
  cs_language :: string
  cs_includeAuth :: "bool option"
  cs_auth :: "SnippetAuth option"
  cs_parameters :: "SnippetParameters option"
  cs_serverUrl :: "string option"
  cs_formatted :: "bool option"

record CodeSnippetLanguage =
  lang_id :: string
  lang_name :: string
  lang_extension :: string

record CodeSnippetResult =
  sn_code :: string
  sn_language :: CodeSnippetLanguage
  sn_description :: string

text \<open>
  What the generator takes from its surroundings: the URLs of the servers of the loaded
  specification, the platform's \<open>URL\<close> objects, \<open>btoa\<close> and \<open>JSON.stringify\<close>, and
  the generators of the seven other languages, which are functions of the same kind as
  \<open>generateCurl\<close>.
\<close>

record 'u snippetEnv =
  se_servers :: "string list"
  se_urls :: "'u urlApi"
  se_btoa :: "string \<Rightarrow> string"
  se_stringify :: "json \<Rightarrow> string"
  se_others :: "string \<Rightarrow> NormalizedEndpoint \<Rightarrow> CodeSnippetOptions \<Rightarrow> error + string"

definition availableLanguages :: "CodeSnippetLanguage list" where
  "availableLanguages =
     [\<lparr>lang_id = ''curl'', lang_name = ''cURL'', lang_extension = ''sh''\<rparr>,
      \<lparr>lang_id = ''javascript'', lang_name = ''JavaScript (fetch)'', lang_extension = ''js''\<rparr>,
      \<lparr>lang_id = ''typescript'', lang_name = ''TypeScript (fetch)'', lang_extension = ''ts''\<rparr>,
      \<lparr>lang_id = ''python'', lang_name = ''Python (requests)'', lang_extension = ''py''\<rparr>,
      \<lparr>lang_id = ''node'', lang_name = ''Node.js (axios)'', lang_extension = ''js''\<rparr>,
      \<lparr>lang_id = ''php'', lang_name = ''PHP (cURL)'', lang_extension = ''php''\<rparr>,
      \<lparr>lang_id = ''java'', lang_name = ''Java (OkHttp)'', lang_extension = ''java''\<rparr>,
      \<lparr>lang_id = ''go'', lang_name = ''Go (net/http)'', lang_extension = ''go''\<rparr>]"

definition getBaseUrl :: "'u snippetEnv \<Rightarrow> string option \<Rightarrow> string" where
  "getBaseUrl env serverUrl =
     (case serverUrl of
        Some u \<Rightarrow> if u \<noteq> [] then u
                 else (case se_servers env of [] \<Rightarrow> ''https://api.example.com'' | s # ss \<Rightarrow> s)
      | None \<Rightarrow> (case se_servers env of [] \<Rightarrow> ''https://api.example.com'' | s # ss \<Rightarrow> s))"

definition snippetPath :: "(string \<times> json) list \<Rightarrow> string \<Rightarrow> string" where
  "snippetPath pathParams path =
     foldl (\<lambda>p (key, v). replace_str p (placeholder key) (toStr v)) path pathParams"

definition snippetQuery :: "'u urlApi \<Rightarrow> (string \<times> json) list \<Rightarrow> 'u \<Rightarrow> 'u" where
  "snippetQuery api queryParams url =
     foldl (\<lambda>u (key, v). if v \<noteq> JNull then searchParamsSet api u key (toStr v) else u)
       url queryParams"

definition buildUrl ::
  "'u snippetEnv \<Rightarrow> NormalizedEndpoint \<Rightarrow> CodeSnippetOptions \<Rightarrow> error + string" where
  "buildUrl env endpoint options =
     (case newURL (se_urls env)
             (case cs_parameters options of
                None \<Rightarrow> ep_path endpoint
              | Some ps \<Rightarrow>
                  (case sp_pathParams ps of
                     None \<Rightarrow> ep_path endpoint
                   | Some pathParams \<Rightarrow> snippetPath pathParams (ep_path endpoint)))
             (getBaseUrl env (cs_serverUrl options)) of
        None \<Rightarrow> Inl TypeError
      | Some url \<Rightarrow>
          Inr (urlToString (se_urls env)
                 (case cs_parameters options of
                    None \<Rightarrow> url
                  | Some ps \<Rightarrow>
                      (case sp_queryParams ps of
                         None \<Rightarrow> url
                       | Some queryParams \<Rightarrow> snippetQuery (se_urls env) queryParams url))))"

definition generateAuthHeaders ::
  "'u snippetEnv \<Rightarrow> SnippetAuth option \<Rightarrow> (string \<times> string) list" where
  "generateAuthHeaders env auth =
     (case auth of
        None \<Rightarrow> []
      | Some a \<Rightarrow>
          (case au_type a of
             ApiKeyAuth \<Rightarrow>
               (case au_apiKey a of
                  None \<Rightarrow> []
                | Some k \<Rightarrow> if ak_in k = InHeader then [(ak_name k, ak_value k)] else [])
           | BearerAuth \<Rightarrow>
               (case au_bearer a of
                  None \<Rightarrow> []
                | Some token \<Rightarrow>
                    if token \<noteq> [] then [(''Authorization'', ''Bearer '' @ token)] else [])
           | BasicAuth \<Rightarrow>
               (case au_basic a of
                  None \<Rightarrow> []
                | Some (username, password) \<Rightarrow>
                    if username \<noteq> [] \<and> password \<noteq> []
                    then [(''Authorization'', ''Basic '' @ se_btoa env (username @ '':'' @ password))]
                    else [])
           | OAuth2Auth \<Rightarrow>
               (case au_oauth2 a of
                  None \<Rightarrow> []
                | Some token \<Rightarrow>
                    if token \<noteq> [] then [(''Authorization'', ''Bearer '' @ token)] else [])))"

text \<open>\<open>{...a, ...b}\<close>: the members of \<open>a\<close>, then those of \<open>b\<close>, a later value for a key replacing the earlier one.\<close>

definition spread :: "(string \<times> 'v) list \<Rightarrow> (string \<times> 'v) list \<Rightarrow> (string \<times> 'v) list" where
  "spread a b = foldl (\<lambda>obj (k, v). objSet k v obj) a b"

text \<open>The pieces of text of the cURL template: the line continuation and the double quote.\<close>

definition continuation :: string where
  "continuation = [CHR '' '', CHR 0x5C, CHR 0x0A, CHR '' '', CHR '' '']"

definition dquote :: string where
  "dquote = [CHR 0x22]"

definition headerLine :: "string \<times> string \<Rightarrow> string" where
  "headerLine h = continuation @ ''-H '' @ dquote @ fst h @ '': '' @ snd h @ dquote"

definition useAuth :: "CodeSnippetOptions \<Rightarrow> bool" where
  "useAuth options = (cs_includeAuth options = Some True)"

text \<open>\<open>options.parameters?.headers || {}\<close>\<close>

definition customHeaders :: "CodeSnippetOptions \<Rightarrow> (string \<times> string) list" where
  "customHeaders options =
     (case cs_parameters options of
        None \<Rightarrow> []
      | Some ps \<Rightarrow> (case sp_headers ps of None \<Rightarrow> [] | Some hs \<Rightarrow> hs))"

text \<open>The body options of the cURL command, for the methods that carry a body.\<close>

definition curlBody :: "'u snippetEnv \<Rightarrow> string \<Rightarrow> CodeSnippetOptions \<Rightarrow> string" where
  "curlBody env httpMethod options =
     (case (case cs_parameters options of None \<Rightarrow> None | Some ps \<Rightarrow> sp_body ps) of
        None \<Rightarrow> []
      | Some body \<Rightarrow>
          if truthy body \<and> httpMethod \<in> set [''POST'', ''PUT'', ''PATCH''] then
            continuation @ ''-H '' @ dquote @ ''Content-Type: application/json'' @ dquote
              @ continuation @ ''-d '' @ [CHR 0x27]
              @ (case body of JStr s \<Rightarrow> s | _ \<Rightarrow> se_stringify env body) @ [CHR 0x27]
          else [])"

text \<open>The URL argument, with the API key appended when it travels in the query.\<close>

definition curlUrl :: "CodeSnippetOptions \<Rightarrow> string \<Rightarrow> string" where
  "curlUrl options url =
     (case (if useAuth options then
              (case cs_auth options of
                 None \<Rightarrow> None
               | Some a \<Rightarrow>
                   if au_type a = ApiKeyAuth then
                     (case au_apiKey a of
                        None \<Rightarrow> None
                      | Some k \<Rightarrow> if ak_in k = InQuery then Some k else None)
                   else None)
            else None) of
        Some k \<Rightarrow>
          continuation @ dquote @ url @ (if includes_str url ''?'' then ''&'' else ''?'')
            @ ak_name k @ ''='' @ ak_value k @ dquote
      | None \<Rightarrow> continuation @ dquote @ url @ dquote)"

definition generateCurl ::
  "'u snippetEnv \<Rightarrow> NormalizedEndpoint \<Rightarrow> CodeSnippetOptions \<Rightarrow> error + string" where
  "generateCurl env endpoint options =
     (case buildUrl env endpoint options of
        Inl e \<Rightarrow> Inl e
      | Inr url \<Rightarrow>
          (let httpMethod = toUpperCase (methodKey (ep_method endpoint));
               authHeaders = (if useAuth options then generateAuthHeaders env (cs_auth options)
                              else []);
               allHeaders = spread authHeaders (customHeaders options)
           in Inr (''curl -X '' @ httpMethod @ concat (map headerLine allHeaders)
                     @ curlBody env httpMethod options @ curlUrl options url)))"

definition generateForEndpoint ::
  "'u snippetEnv \<Rightarrow> NormalizedEndpoint \<Rightarrow> CodeSnippetOptions \<Rightarrow> error + CodeSnippetResult" where
  "generateForEndpoint env endpoint options =
     (case find (\<lambda>lang. lang_id lang = cs_language options) availableLanguages of
        None \<Rightarrow> Inl (Error (''Unsupported language: '' @ cs_language options))
      | Some language \<Rightarrow>
          (case (if cs_language options = ''curl'' then generateCurl env endpoint options
                 else se_others env (cs_language options) endpoint options) of
             Inl e \<Rightarrow> Inl e
           | Inr code \<Rightarrow>
               Inr \<lparr>sn_code = code, sn_language = language,
                    sn_description = lang_name language @ '' code for ''
                      @ toUpperCase (methodKey (ep_method endpoint)) @ '' ''
                      @ ep_path endpoint\<rparr>))"

text \<open>
  Examples. \<open>plainUrls\<close> stands for the platform's \<open>URL\<close> objects on the inputs of
  the examples: a base that is an origin (\<open>https://api.example.com\<close>) and a text that
  begins with a slash and consists of letters, digits, slashes, percent escapes and
  braces, followed or not by a query or a fragment of such characters. There the URL is
  the base, then the path, in which the serializer writes each brace percent-encoded
  (the braces belong to the path percent-encode set of the URL Standard), then the query
  and the fragment as they are (the braces belong to neither of their percent-encode
  sets).
\<close>

definition pathChar :: "char \<Rightarrow> string" where
  "pathChar c = (if c = CHR ''{'' then ''%7B'' else if c = CHR ''}'' then ''%7D'' else [c])"

definition pathPart :: "string \<Rightarrow> string" where
  "pathPart s = takeWhile (\<lambda>c. c \<noteq> CHR ''?'' \<and> c \<noteq> CHR ''#'') s"

definition afterPath :: "string \<Rightarrow> string" where
  "afterPath s = dropWhile (\<lambda>c. c \<noteq> CHR ''?'' \<and> c \<noteq> CHR ''#'') s"

definition plainUrls :: "string urlApi" where
  "plainUrls = \<lparr>newURL = (\<lambda>path base.
       Some (base @ concat (map pathChar (pathPart path)) @ afterPath path)),
     searchParamsSet = (\<lambda>u k v. u @ (if includes_str u ''?'' then ''&'' else ''?'') @ k @ ''='' @ v),
     searchParamsAppend = (\<lambda>u k v. u @ (if includes_str u ''?'' then ''&'' else ''?'') @ k @ ''='' @ v),
     urlToString = (\<lambda>u. u)\<rparr>"

definition plainEnv :: "string snippetEnv" where
  "plainEnv = \<lparr>se_servers = [''https://api.example.com''], se_urls = plainUrls,
     se_btoa = (\<lambda>s. s), se_stringify = toStr,
     se_others = (\<lambda>language endpoint options. Inr [])\<rparr>"

definition listUsers :: NormalizedEndpoint where
  "listUsers = \<lparr>ep_id = ''listUsers'', ep_method = Get, ep_path = ''/users'',
     ep_summary = Some ''List all users'', ep_description = None,
     ep_operationId = Some ''listUsers'', ep_tags = None, ep_parameters = [],
     ep_requestBody = None, ep_responses = [], ep_deprecated = Some False,
     ep_security = None\<rparr>"


definition bearerAuth :: "string \<Rightarrow> SnippetAuth" where
  "bearerAuth token = \<lparr>au_type = BearerAuth, au_apiKey = None, au_bearer = Some token,
     au_basic = None, au_oauth2 = None\<rparr>"

definition curlOptions :: CodeSnippetOptions where
  "curlOptions = \<lparr>cs_language = ''curl'', cs_includeAuth = None, cs_auth = None,
     cs_parameters = None, cs_serverUrl = None, cs_formatted = None\<rparr>"

definition authorizationHeader :: "string \<Rightarrow> string" where
  "authorizationHeader token = ''-H '' @ dquote @ ''Authorization: Bearer '' @ token @ dquote"

text \<open>
  The vocabulary of the statements about the normalizer: the entries of \<open>paths\<close>; the
  method keys present on a path item, whatever they hold; the method keys that hold a
  truthy value, which are the ones that pass the test \<open>if (operation)\<close>; and documents
  in which every method key that is present holds an object, as the type \<open>PathItem\<close>
  declares.
\<close>

definition truthyMethod :: "(string \<times> json) list \<Rightarrow> HttpMethod \<Rightarrow> bool" where
  "truthyMethod item m = (case map_of item (methodKey m) of None \<Rightarrow> False | Some v \<Rightarrow> truthy v)"

definition pathEntries :: "json \<Rightarrow> (string \<times> json) list" where
  "pathEntries spec = (case specPaths spec of Inr paths \<Rightarrow> paths | Inl e \<Rightarrow> [])"

definition presentMethods :: "json \<Rightarrow> HttpMethod list" where
  "presentMethods pathItem = filter (\<lambda>m. ownProp pathItem (methodKey m) \<noteq> None) httpMethods"

definition operationMethods :: "json \<Rightarrow> HttpMethod list" where
  "operationMethods pathItem =
     filter (\<lambda>m. case ownProp pathItem (methodKey m) of
                   None \<Rightarrow> False
                 | Some v \<Rightarrow> truthy v) httpMethods"

definition isObject :: "json \<Rightarrow> bool" where
  "isObject v = (case v of JObj kvs \<Rightarrow> True | _ \<Rightarrow> False)"

definition operationsTyped :: "json \<Rightarrow> bool" where
  "operationsTyped spec =
     list_all (\<lambda>(path, pathItem).
       list_all (\<lambda>m. case ownProp pathItem (methodKey m) of
                        None \<Rightarrow> True
                      | Some v \<Rightarrow> isObject v) httpMethods) (pathEntries spec)"

definition usersApi :: json where
  "usersApi = JObj [
     (''openapi'', JStr ''3.0.0''),
     (''paths'', JObj [
        (''/users'', JObj [
           (''get'', JObj [
              (''operationId'', JStr ''listUsers''),
              (''responses'', JObj [(''200'', JObj [(''description'', JStr ''OK'')])])]),
           (''post'', JObj [
              (''responses'', JObj [
                 (''201'', JObj [(''$ref'', JStr ''#/components/responses/Created'')])])])]),
        (''/users/{id}'', JObj [
           (''summary'', JStr ''one user''),
           (''delete'', JObj [
              (''parameters'', JArr [JObj [(''$ref'', JStr ''#/components/parameters/Id'')]]),
              (''responses'', JObj [])])])]),
     (''components'', JObj [
        (''parameters'', JObj [
           (''Id'', JObj [(''name'', JStr ''id''), (''in'', JStr ''path''),
                          (''required'', JBool True),
                          (''schema'', JObj [(''type'', JStr ''string'')])])]),
        (''responses'', JObj [(''Created'', JObj [(''description'', JStr ''Created'')])])])]"

text \<open>A path item whose \<open>get\<close> key is present and holds \<open>null\<close>.\<close>

definition nullGetApi :: json where
  "nullGetApi = JObj [
     (''paths'', JObj [
        (''/a'', JObj [
           (''get'', JNull),
           (''post'', JObj [(''responses'', JObj [])])])])]"

definition postA :: NormalizedEndpoint where
  "postA = \<lparr>ep_id = ''POST__a'', ep_method = Post, ep_path = ''/a'', ep_summary = None,
     ep_description = None, ep_operationId = None, ep_tags = None,
     ep_parameters = [], ep_requestBody = None, ep_responses = [],
     ep_deprecated = Some False, ep_security = None\<rparr>"

definition sharedIdApi :: json where
  "sharedIdApi = JObj [
     (''paths'', JObj [
        (''/a'', JObj [
           (''get'', JObj [(''operationId'', JStr ''run''), (''responses'', JObj [])]),
           (''post'', JObj [(''operationId'', JStr ''run''), (''responses'', JObj [])])])])]"

definition runGet :: NormalizedEndpoint where
  "runGet = \<lparr>ep_id = ''run'', ep_method = Get, ep_path = ''/a'', ep_summary = None,
     ep_description = None, ep_operationId = Some ''run'', ep_tags = None,
     ep_parameters = [], ep_requestBody = None, ep_responses = [],
     ep_deprecated = Some False, ep_security = None\<rparr>"

definition runPost :: NormalizedEndpoint where
  "runPost = \<lparr>ep_id = ''run'', ep_method = Post, ep_path = ''/a'', ep_summary = None,
     ep_description = None, ep_operationId = Some ''run'', ep_tags = None,
     ep_parameters = [], ep_requestBody = None, ep_responses = [],
     ep_deprecated = Some False, ep_security = None\<rparr>"

text \<open>
  Following a pointer through the document alone: \<open>lookupPath v segs\<close> is the value
  that the segments lead to when each of them names an own member of the value
  reached so far, and \<open>None\<close> when some segment is absent.
\<close>

fun lookupPath :: "json \<Rightarrow> string list \<Rightarrow> json option" where
  "lookupPath v [] = Some v"
| "lookupPath v (s # ss) =
     (case ownProp v s of
        None \<Rightarrow> None
      | Some x \<Rightarrow> lookupPath x ss)"

section \<open>Properties of the reference resolver\<close>

lemma getProp_own:
  "ownProp v k = Some x \<Longrightarrow> getProp inh (Data v) k = Inr (Some (Data x))"
  by (cases v) simp_all

lemma descend_falsy:
  "pre \<noteq> [] \<Longrightarrow> lookupPath spec pre = Some v \<Longrightarrow> \<not> truthy v \<Longrightarrow>
   descend inh ref (Data spec) (pre @ rest) = Inl (unresolved ref)"
proof (induction pre arbitrary: spec)
  case Nil
  then show ?case by simp
next
  case (Cons s pre')
  from Cons.prems(2) obtain x where x: "ownProp spec s = Some x"
    and rest_path: "lookupPath x pre' = Some v"
    by (auto split: option.splits)
  have step: "getProp inh (Data spec) s = Inr (Some (Data x))"
    using x by (rule getProp_own)
  show ?case
  proof (cases "pre' = []")
    case True
    with rest_path have "x = v" by simp
    with step Cons.prems(3) show ?thesis by simp
  next
    case False
    show ?thesis
    proof (cases "truthy x")
      case True
      with step Cons.IH [OF False rest_path Cons.prems(3)] show ?thesis by simp
    next
      case False
      with step show ?thesis by simp
    qed
  qed
qed

text \<open>
  C9. A pointer all of whose segments are present can still be reported as
  unresolvable: as soon as the value reached after some segment (the final target
  included) is falsy, that is \<open>false\<close>, \<open>0\<close>, the empty string or \<open>null\<close>, the
  resolver throws "Unable to resolve reference", although the segment exists.
\<close>

theorem falsy_value_unresolvable:
  assumes "map_of kvs ''$ref'' = Some (JStr ref)"
    and "refPath ref = pre @ rest"
    and "pre \<noteq> []"
    and "lookupPath spec pre = Some v"
    and "\<not> truthy v"
  shows "resolveReference inh (JObj kvs) spec = Inl (unresolved ref)"
  using assms by (simp add: resolveReference_def descend_falsy)


theorem falsy_value_unresolvable_witness:
  "lookupPath
     (JObj [(''components'', JObj [(''schemas'', JObj [(''Flag'',
        JObj [(''type'', JStr ''boolean''), (''default'', JBool False)])])])])
     (refPath ''#/components/schemas/Flag/default'') = Some (JBool False)
   \<and> resolveReference noRuntime (JObj [(''$ref'', JStr ''#/components/schemas/Flag/default'')])
     (JObj [(''components'', JObj [(''schemas'', JObj [(''Flag'',
        JObj [(''type'', JStr ''boolean''), (''default'', JBool False)])])])])
     = Inl (Error ''Unable to resolve reference: #/components/schemas/Flag/default'')"
proof -
  let ?ref = "''#/components/schemas/Flag/default''"
  let ?segs = "[''components'', ''schemas'', ''Flag'', ''default'']"
  let ?spec = "JObj [(''components'', JObj [(''schemas'', JObj [(''Flag'',
        JObj [(''type'', JStr ''boolean''), (''default'', JBool False)])])])]"
  have a: "map_of [(''$ref'', JStr ?ref)] ''$ref'' = Some (JStr ?ref)" by simp
  have b: "refPath ?ref = ?segs @ []" by (simp add: refPath_def replace_str_def)
  have c: "?segs \<noteq> []" by simp
  have d: "lookupPath ?spec ?segs = Some (JBool False)" by simp
  have e: "\<not> truthy (JBool False)" by simp
  from falsy_value_unresolvable [OF a b c d e, of noRuntime] b d
  show ?thesis by (simp add: unresolved_def)
qed

lemma resolveReference_identity:
  "\<not> hasRef item \<Longrightarrow> resolveReference inh item spec = Inr (Data item)"
  by (simp add: resolveReference_def)

lemma descend_absent:
  "lookupPath spec pre = Some v \<Longrightarrow> ownProp v s = None \<Longrightarrow> inh (Data v) s = None \<Longrightarrow>
   descend inh ref (Data spec) (pre @ s # rest) = Inl (unresolved ref)
   \<or> descend inh ref (Data spec) (pre @ s # rest) = Inl TypeError"
proof (induction pre arbitrary: spec)
  case Nil
  then show ?case by (cases v) simp_all
next
  case (Cons p pre')
  from Cons.prems(1) obtain x where x: "ownProp spec p = Some x"
    and rest_path: "lookupPath x pre' = Some v"
    by (auto split: option.splits)
  have step: "getProp inh (Data spec) p = Inr (Some (Data x))"
    using x by (rule getProp_own)
  from Cons.IH [OF rest_path Cons.prems(2) Cons.prems(3)] step
  show ?case by (cases "truthy x") auto
qed

text \<open>
  C3. A node that is not a reference passes through unchanged, and a pointer with a
  segment that is absent from the document makes the resolver throw, as long as the
  segment is not the name of a member that the runtime supplies. For such a name the
  member read \<open>current[segment]\<close> finds the inherited member, which is truthy, and
  the resolver returns it: the document \<open>{}\<close> has no member \<open>constructor\<close>, yet the
  pointer \<open>#/constructor\<close> resolves, to the built-in constructor of plain objects.
\<close>

theorem absent_segment_resolves_to_inherited_member:
  "lookupPath (JObj []) (refPath ''#/constructor'') = None
   \<and> resolveReference objectPrototype (JObj [(''$ref'', JStr ''#/constructor'')]) (JObj [])
       = Inr (Native ''constructor'')"
  by (simp add: resolveReference_def refPath_def replace_str_def objectPrototypeNames_def)

section \<open>Properties of the normalizer\<close>

lemma bind_Inr: "bind m f = Inr y \<longleftrightarrow> (\<exists>x. m = Inr x \<and> f x = Inr y)"
  by (cases m) (simp_all add: bind_def)

lemma asObject_Inr: "asObject v = Inr kvs \<longleftrightarrow> v = JObj kvs"
  by (cases v) (simp_all add: asObject_def)

lemma normalizeEndpoint_fields:
  "normalizeEndpoint inh depth path m operation spec = Inr e \<Longrightarrow>
   ep_path e = path \<and> ep_method e = m \<and>
   ep_id e = generateEndpointId m path (ep_operationId e)"
  by (auto simp: normalizeEndpoint_def bind_Inr)

lemma pathItemEndpoints_pairs:
  "pathItemEndpoints inh depth path item spec ms = Inr eps \<Longrightarrow>
   map (\<lambda>e. (ep_path e, ep_method e)) eps = map (Pair path) (filter (truthyMethod item) ms)
   \<and> (\<forall>e \<in> set eps. ep_id e = generateEndpointId (ep_method e) (ep_path e) (ep_operationId e))"
proof (induction ms arbitrary: eps)
  case Nil
  then show ?case by simp
next
  case (Cons m ms)
  show ?case
  proof (cases "map_of item (methodKey m)")
    case None
    with Cons show ?thesis by (simp add: truthyMethod_def)
  next
    case (Some v)
    show ?thesis
    proof (cases "truthy v")
      case False
      with Some Cons show ?thesis by (simp add: truthyMethod_def)
    next
      case True
      with Some Cons.prems obtain e rest where
        e: "normalizeEndpoint inh depth path m v spec = Inr e"
        and rest: "pathItemEndpoints inh depth path item spec ms = Inr rest"
        and eps: "eps = e # rest"
        by (auto simp: bind_Inr)
      from normalizeEndpoint_fields [OF e] Cons.IH [OF rest] Some True eps
      show ?thesis by (simp add: truthyMethod_def)
    qed
  qed
qed

lemma pathsEndpoints_pairs:
  "pathsEndpoints inh depth paths spec = Inr eps \<Longrightarrow>
   map (\<lambda>e. (ep_path e, ep_method e)) eps =
     concat (map (\<lambda>(path, pathItem).
       case pathItem of
         JObj item \<Rightarrow> map (Pair path) (filter (truthyMethod item) httpMethods)
       | _ \<Rightarrow> []) paths)
   \<and> list_all isObject (map snd paths)
   \<and> (\<forall>e \<in> set eps. ep_id e = generateEndpointId (ep_method e) (ep_path e) (ep_operationId e))"
proof (induction paths arbitrary: eps)
  case Nil
  then show ?case by simp
next
  case (Cons entry paths)
  obtain path pathItem where entry: "entry = (path, pathItem)" by (cases entry)
  from Cons.prems entry obtain item here others where
    item: "pathItem = JObj item"
    and here: "pathItemEndpoints inh depth path item spec httpMethods = Inr here"
    and others: "pathsEndpoints inh depth paths spec = Inr others"
    and eps: "eps = here @ others"
    by (auto simp: bind_Inr asObject_Inr)
  from pathItemEndpoints_pairs [OF here] Cons.IH [OF others] entry item eps
  show ?case by (auto simp: isObject_def)
qed

lemma operationMethods_object:
  "operationMethods (JObj item) = filter (truthyMethod item) httpMethods"
  by (simp add: operationMethods_def truthyMethod_def [abs_def])

lemma operationMethods_present:
  "operationMethods pathItem
   = filter (\<lambda>m. case ownProp pathItem (methodKey m) of None \<Rightarrow> False | Some v \<Rightarrow> truthy v)
       (presentMethods pathItem)"
  unfolding operationMethods_def presentMethods_def filter_filter
  by (rule filter_cong) (auto split: option.splits)

lemma operationMethods_le:
  "length (operationMethods pathItem) \<le> length (presentMethods pathItem)"
  unfolding operationMethods_present by (rule length_filter_le)

lemma operationMethods_typed:
  assumes "list_all (\<lambda>m. case ownProp pathItem (methodKey m) of
                            None \<Rightarrow> True | Some v \<Rightarrow> isObject v) httpMethods"
  shows "operationMethods pathItem = presentMethods pathItem"
  unfolding operationMethods_def presentMethods_def
proof (rule filter_cong [OF refl])
  fix m assume "m \<in> set httpMethods"
  with assms have "case ownProp pathItem (methodKey m) of None \<Rightarrow> True | Some v \<Rightarrow> isObject v"
    by (simp add: list_all_iff)
  then show "(case ownProp pathItem (methodKey m) of None \<Rightarrow> False | Some v \<Rightarrow> truthy v)
             = (ownProp pathItem (methodKey m) \<noteq> None)"
    by (auto simp: isObject_def split: option.splits json.splits)
qed

lemma object_paths_methods:
  assumes "list_all isObject (map snd paths)"
  shows "map (\<lambda>(path, pathItem).
           case pathItem of
             JObj item \<Rightarrow> map (Pair path) (filter (truthyMethod item) httpMethods)
           | _ \<Rightarrow> []) paths
         = map (\<lambda>(path, pathItem). map (Pair path) (operationMethods pathItem)) paths"
  using assms
  by (induction paths)
     (auto simp: isObject_def operationMethods_object split: json.splits)

lemma extractEndpoints_paths:
  assumes "extractEndpoints inh depth spec = Inr endpoints"
  shows "pathsEndpoints inh depth (pathEntries spec) spec = Inr endpoints"
  using assms by (auto simp: extractEndpoints_def pathEntries_def bind_Inr)

text \<open>
  C1, as the code has it. Whenever normalization returns, the endpoints array has one
  endpoint per method key that holds a truthy value on a path item, in the order of the
  paths and, within a path, in the fixed order of the eight methods; so its length is
  the sum over the path items of the number of those keys. A method key that is present
  and holds a falsy value gives no endpoint: the length is at most the number of method
  keys present, and it is that number in a document in which every method key present
  holds an object.
\<close>

theorem endpoints_one_per_truthy_operation:
  assumes "extractEndpoints inh depth spec = Inr endpoints"
  shows "length endpoints
           = sum_list (map (\<lambda>(path, pathItem). length (operationMethods pathItem))
               (pathEntries spec))
         \<and> map (\<lambda>e. (ep_path e, ep_method e)) endpoints
           = concat (map (\<lambda>(path, pathItem). map (Pair path) (operationMethods pathItem))
               (pathEntries spec))
         \<and> length endpoints
           \<le> sum_list (map (\<lambda>(path, pathItem). length (presentMethods pathItem))
               (pathEntries spec))
         \<and> (operationsTyped spec \<longrightarrow>
              length endpoints
                = sum_list (map (\<lambda>(path, pathItem). length (presentMethods pathItem))
                    (pathEntries spec)))"
proof -
  let ?paths = "pathEntries spec"
  let ?truthy = "\<lambda>(path, pathItem). length (operationMethods pathItem)"
  let ?present = "\<lambda>(path :: string, pathItem). length (presentMethods pathItem)"
  from extractEndpoints_paths [OF assms]
  have run: "pathsEndpoints inh depth ?paths spec = Inr endpoints" .
  from pathsEndpoints_pairs [OF run]
  have pairs: "map (\<lambda>e. (ep_path e, ep_method e)) endpoints
      = concat (map (\<lambda>(path, pathItem). map (Pair path) (operationMethods pathItem)) ?paths)"
    by (simp add: object_paths_methods)
  have "length endpoints = length (map (\<lambda>e. (ep_path e, ep_method e)) endpoints)"
    by simp
  also have "\<dots> = sum_list (map ?truthy ?paths)"
    unfolding pairs by (simp add: length_concat comp_def split_def)
  finally have count: "length endpoints = sum_list (map ?truthy ?paths)" .
  have "sum_list (map ?truthy ?paths) \<le> sum_list (map ?present ?paths)"
    by (rule sum_list_mono) (auto simp: operationMethods_le)
  with count have most: "length endpoints \<le> sum_list (map ?present ?paths)" by simp
  have typed: "length endpoints = sum_list (map ?present ?paths)" if "operationsTyped spec"
  proof -
    have "map ?truthy ?paths = map ?present ?paths"
    proof (rule map_cong [OF refl])
      fix entry assume "entry \<in> set ?paths"
      with that show "?truthy entry = ?present entry"
        by (cases entry) (auto simp: operationsTyped_def list_all_iff operationMethods_typed)
    qed
    with count show ?thesis by simp
  qed
  from count pairs most typed show ?thesis by blast
qed

theorem endpoints_one_per_truthy_operation_witness:
  "\<exists>endpoints. extractEndpoints noRuntime 3 usersApi = Inr endpoints
     \<and> operationsTyped usersApi
     \<and> length endpoints = 3
     \<and> map (\<lambda>e. (ep_path e, ep_method e)) endpoints
         = [(''/users'', Get), (''/users'', Post), (''/users/{id}'', Delete)]"
proof -
  have "case extractEndpoints noRuntime 3 usersApi of Inr eps \<Rightarrow> True | Inl e \<Rightarrow> False"
    by code_simp
  then obtain endpoints where run: "extractEndpoints noRuntime 3 usersApi = Inr endpoints"
    by (auto split: sum.splits)
  have typed: "operationsTyped usersApi" by code_simp
  have count: "sum_list (map (\<lambda>(path, pathItem). length (presentMethods pathItem))
                  (pathEntries usersApi)) = 3"
    by code_simp
  have pairs: "concat (map (\<lambda>(path, pathItem). map (Pair path) (operationMethods pathItem))
                  (pathEntries usersApi))
               = [(''/users'', Get), (''/users'', Post), (''/users/{id}'', Delete)]"
    by code_simp
  from endpoints_one_per_truthy_operation [OF run] run typed count pairs
  show ?thesis by simp
qed

text \<open>
  A path item with \<open>get: null\<close> and a \<open>post\<close> operation has two of the eight method
  keys present, neither of them undefined, and normalization produces one endpoint.
\<close>

theorem null_operation_yields_no_endpoint:
  "extractEndpoints noRuntime 1 nullGetApi = Inr [postA]
   \<and> pathEntries nullGetApi
       = [(''/a'', JObj [(''get'', JNull), (''post'', JObj [(''responses'', JObj [])])])]
   \<and> presentMethods (JObj [(''get'', JNull), (''post'', JObj [(''responses'', JObj [])])])
       = [Get, Post]
   \<and> sum_list (map (\<lambda>(path, pathItem). length (presentMethods pathItem))
         (pathEntries nullGetApi)) = 2
   \<and> length [postA] = 1"
proof -
  have "extractEndpoints noRuntime 1 nullGetApi = Inr [postA]"
    by code_simp
  moreover have "pathEntries nullGetApi
       = [(''/a'', JObj [(''get'', JNull), (''post'', JObj [(''responses'', JObj [])])])]"
    by code_simp
  moreover have "presentMethods (JObj [(''get'', JNull), (''post'', JObj [(''responses'', JObj [])])])
       = [Get, Post]"
    by code_simp
  moreover have "sum_list (map (\<lambda>(path, pathItem). length (presentMethods pathItem))
         (pathEntries nullGetApi)) = 2"
    by code_simp
  ultimately show ?thesis by simp
qed

lemma find_first_with_key:
  "e \<in> set xs \<Longrightarrow>
   \<exists>pre first post. xs = pre @ first # post \<and> (\<forall>x \<in> set pre. f x \<noteq> f e) \<and> f first = f e
     \<and> find (\<lambda>y. f y = f e) xs = Some first"
proof (induction xs)
  case Nil
  then show ?case by simp
next
  case (Cons x xs)
  show ?case
  proof (cases "f x = f e")
    case True
    then have "x # xs = [] @ x # xs \<and> (\<forall>y \<in> set []. f y \<noteq> f e) \<and> f x = f e
        \<and> find (\<lambda>y. f y = f e) (x # xs) = Some x"
      by simp
    then show ?thesis by blast
  next
    case False
    with Cons.prems have "e \<in> set xs" by auto
    from Cons.IH [OF this] obtain pre first post where
      split: "xs = pre @ first # post" and before: "\<forall>y \<in> set pre. f y \<noteq> f e"
      and key: "f first = f e" and found: "find (\<lambda>y. f y = f e) xs = Some first"
      by blast
    from split before key found False
    have "x # xs = (x # pre) @ first # post \<and> (\<forall>y \<in> set (x # pre). f y \<noteq> f e) \<and> f first = f e
        \<and> find (\<lambda>y. f y = f e) (x # xs) = Some first"
      by simp
    then show ?thesis by blast
  qed
qed

lemma find_distinct_key:
  "distinct (map f xs) \<Longrightarrow> e \<in> set xs \<Longrightarrow> find (\<lambda>y. f y = f e) xs = Some e"
  by (induction xs) auto

text \<open>
  C2, as the code has it. The id of a normalized endpoint is the declared operation id
  when that is a non-empty string, and the derived slug otherwise. Looking the id of
  an endpoint of the list up returns the first endpoint of the list with that id: the
  endpoint itself when no other endpoint has been assigned the same id.
\<close>

theorem findEndpointById_returns_first_with_id:
  assumes "extractEndpoints inh depth spec = Inr endpoints"
    and "e \<in> set endpoints"
  shows "ep_id e = generateEndpointId (ep_method e) (ep_path e) (ep_operationId e)
    \<and> (\<exists>pre first post. endpoints = pre @ first # post
          \<and> (\<forall>x \<in> set pre. ep_id x \<noteq> ep_id e) \<and> ep_id first = ep_id e
          \<and> findEndpointById endpoints (ep_id e) = Some first)
    \<and> (distinct (map ep_id endpoints) \<longrightarrow> findEndpointById endpoints (ep_id e) = Some e)"
proof -
  from pathsEndpoints_pairs [OF extractEndpoints_paths [OF assms(1)]] assms(2)
  have "ep_id e = generateEndpointId (ep_method e) (ep_path e) (ep_operationId e)"
    by blast
  moreover from find_first_with_key [OF assms(2), of ep_id]
  have "\<exists>pre first post. endpoints = pre @ first # post
          \<and> (\<forall>x \<in> set pre. ep_id x \<noteq> ep_id e) \<and> ep_id first = ep_id e
          \<and> findEndpointById endpoints (ep_id e) = Some first"
    by (simp add: findEndpointById_def)
  moreover have "distinct (map ep_id endpoints) \<longrightarrow> findEndpointById endpoints (ep_id e) = Some e"
    using assms(2) by (simp add: findEndpointById_def find_distinct_key)
  ultimately show ?thesis by blast
qed

theorem findEndpointById_returns_first_with_id_witness:
  "\<exists>endpoints e. extractEndpoints noRuntime 3 usersApi = Inr endpoints
     \<and> e \<in> set endpoints
     \<and> ep_id e = ''POST__users''
     \<and> distinct (map ep_id endpoints)
     \<and> findEndpointById endpoints (ep_id e) = Some e"
proof -
  have ids: "map_sum id (map ep_id) (extractEndpoints noRuntime 3 usersApi)
             = Inr [''listUsers'', ''POST__users'', ''DELETE__users__id_'']"
    by code_simp
  then obtain endpoints where run: "extractEndpoints noRuntime 3 usersApi = Inr endpoints"
    and names: "map ep_id endpoints = [''listUsers'', ''POST__users'', ''DELETE__users__id_'']"
    by (cases "extractEndpoints noRuntime 3 usersApi") auto
  from names obtain a e c where eps: "endpoints = [a, e, c]" and e: "ep_id e = ''POST__users''"
    by auto
  have mem: "e \<in> set endpoints" using eps by simp
  have dist: "distinct (map ep_id endpoints)" unfolding names by simp
  from findEndpointById_returns_first_with_id [OF run mem] dist
  have "findEndpointById endpoints (ep_id e) = Some e" by blast
  with run mem e dist show ?thesis by blast
qed

text \<open>
  Two operations of one path item that declare the same operation id: the lookup of
  the second endpoint's id returns the first endpoint.
\<close>

theorem findEndpointById_shared_id:
  "extractEndpoints noRuntime 1 sharedIdApi = Inr [runGet, runPost]
   \<and> runPost \<in> set [runGet, runPost]
   \<and> findEndpointById [runGet, runPost] (ep_id runPost) = Some runGet
   \<and> runGet \<noteq> runPost"
proof -
  have "extractEndpoints noRuntime 1 sharedIdApi = Inr [runGet, runPost]"
    by code_simp
  moreover have "findEndpointById [runGet, runPost] (ep_id runPost) = Some runGet"
    by (simp add: findEndpointById_def runGet_def runPost_def)
  moreover have "runGet \<noteq> runPost"
    by (simp add: runGet_def runPost_def)
  ultimately show ?thesis by simp
qed

section \<open>Properties of the search engine\<close>

lemma includes_str_sublist: "includes_str t q \<longleftrightarrow> sublist q t"
  by (induction t) (auto simp: sublist_Cons_right)

lemma fuzzyLoop_subseq:
  "qi \<le> length q \<Longrightarrow> fuzzyLoop t q qi m = (qi', m') \<Longrightarrow>
   m' + qi = m + qi' \<and> qi' \<le> length q \<and> (qi' = length q \<longleftrightarrow> subseq (drop qi q) t)"
proof (induction t arbitrary: qi m)
  case Nil
  then show ?case by (auto dest!: list_emb_Nil2)
next
  case (Cons c cs)
  show ?case
  proof (cases "qi < length q")
    case False
    with Cons.prems show ?thesis by auto
  next
    case True
    then have dr: "drop qi q = q ! qi # drop (Suc qi) q"
      by (simp add: Cons_nth_drop_Suc)
    show ?thesis
    proof (cases "c = q ! qi")
      case eq: True
      from Cons.prems True eq have run: "fuzzyLoop cs q (Suc qi) (Suc m) = (qi', m')" by simp
      from True have "Suc qi \<le> length q" by simp
      from Cons.IH [OF this run] dr eq show ?thesis by simp
    next
      case neq: False
      from Cons.prems True neq have run: "fuzzyLoop cs q qi m = (qi', m')" by simp
      from Cons.IH [OF Cons.prems(1) run] dr neq show ?thesis by auto
    qed
  qed
qed

text \<open>
  C5, as the code has it. The score of a field is 1 when the normalized query occurs
  in the normalized text. Otherwise, with fuzzy search enabled, it is
  \<open>(matches / length) * 0.7\<close> only when every character of the query has been matched
  in order, so that the quotient is 1 and the score 0.7. In every other case, a query
  whose characters appear in order only in part included, the score is 0.
\<close>

theorem fuzzyMatch_score:
  "fuzzyMatch options query t =
     (if sublist (normalizeText options query) (normalizeText options t) then 1
      else if fuzzySearch options \<and> subseq (normalizeText options query) (normalizeText options t)
      then 7 / 10 else 0)"
proof -
  let ?q = "normalizeText options query" and ?t = "normalizeText options t"
  obtain qi m where run: "fuzzyLoop ?t ?q 0 0 = (qi, m)" by (cases "fuzzyLoop ?t ?q 0 0")
  from fuzzyLoop_subseq [OF _ run]
  have inv: "m = qi" "qi = length ?q \<longleftrightarrow> subseq ?q ?t" by auto
  show ?thesis
  proof (cases "sublist ?q ?t")
    case True
    then show ?thesis by (simp add: fuzzyMatch_def includes_str_sublist)
  next
    case False
    then have "?q \<noteq> []" by auto
    with False run inv show ?thesis
      by (auto simp: fuzzyMatch_def includes_str_sublist Let_def)
  qed
qed

text \<open>
  With fuzzy search enabled, the query \<open>abc\<close> against the text \<open>axbx\<close>: the loop
  matches two of the three characters in order, the proportional score would be
  \<open>(2 / 3) * 0.7\<close>, and the score is 0.
\<close>

theorem fuzzyMatch_partial_match_scores_zero:
  "\<not> includes_str ''axbx'' ''abc''
   \<and> snd (fuzzyLoop ''axbx'' ''abc'' 0 0) = 2
   \<and> fuzzyMatch \<lparr>so_searchFields = None, so_caseSensitive = None,
                  so_fuzzySearch = Some True, so_minQueryLength = None\<rparr> ''abc'' ''axbx''
       \<noteq> (real 2 / real (length ''abc'')) * (7 / 10)
   \<and> fuzzyMatch \<lparr>so_searchFields = None, so_caseSensitive = None,
                  so_fuzzySearch = Some True, so_minQueryLength = None\<rparr> ''abc'' ''axbx'' = 0"
proof -
  have "fuzzyMatch \<lparr>so_searchFields = None, so_caseSensitive = None,
          so_fuzzySearch = Some True, so_minQueryLength = None\<rparr> ''abc'' ''axbx'' = 0"
    by code_simp
  moreover have "snd (fuzzyLoop ''axbx'' ''abc'' 0 0) = 2" by code_simp
  moreover have "\<not> includes_str ''axbx'' ''abc''" by code_simp
  ultimately show ?thesis by simp
qed

lemma set_insertBy: "set (insertBy cmp x xs) = insert x (set xs)"
  by (induction xs) auto

lemma sorted_insertBy:
  "sorted_wrt (\<lambda>a b. sr_score b \<le> sr_score a) xs \<Longrightarrow>
   sorted_wrt (\<lambda>a b. sr_score b \<le> sr_score a) (insertBy byRelevance x xs)"
proof (induction xs)
  case Nil
  then show ?case by simp
next
  case (Cons y ys)
  show ?case
  proof (cases "byRelevance x y \<le> 0")
    case True
    with Cons.prems show ?thesis by (auto simp: byRelevance_def)
  next
    case False
    with Cons show ?thesis by (auto simp: byRelevance_def set_insertBy)
  qed
qed

lemma sorted_sortBy: "sorted_wrt (\<lambda>a b. sr_score b \<le> sr_score a) (sortBy byRelevance xs)"
  by (induction xs) (simp_all add: sortBy_def sorted_insertBy)

lemma filter_insertBy:
  "filter (\<lambda>r. sr_score r = s) (insertBy byRelevance x xs)
   = (if sr_score x = s then x # filter (\<lambda>r. sr_score r = s) xs
      else filter (\<lambda>r. sr_score r = s) xs)"
  by (induction xs) (auto simp: byRelevance_def)

lemma filter_sortBy:
  "filter (\<lambda>r. sr_score r = s) (sortBy byRelevance xs) = filter (\<lambda>r. sr_score r = s) xs"
  by (induction xs) (simp_all add: sortBy_def filter_insertBy)

lemma subseq_applyFilters: "subseq (applyFilters filters endpoints) endpoints"
proof -
  have m: "\<And>xs. subseq (byMethods filters xs) xs"
    by (simp add: byMethods_def split: option.splits)
  have t: "\<And>xs. subseq (byTags filters xs) xs"
    by (simp add: byTags_def split: option.splits)
  have d: "\<And>xs. subseq (byDeprecated filters xs) xs"
    by (simp add: byDeprecated_def split: option.splits)
  have p: "\<And>xs. subseq (byHasParameters filters xs) xs"
    by (simp add: byHasParameters_def split: option.splits)
  have b: "\<And>xs. subseq (byHasRequestBody filters xs) xs"
    by (simp add: byHasRequestBody_def split: option.splits)
  have c: "\<And>xs. subseq (byResponseStatusCodes filters xs) xs"
    by (simp add: byResponseStatusCodes_def split: option.splits)
  note step = subseq_order.trans
  show ?thesis
    unfolding applyFilters_def
    by (rule step [OF c step [OF b step [OF p step [OF d step [OF t m]]]]])
qed

lemma searchInEndpoint_endpoint:
  "searchInEndpoint options e query = Some r \<Longrightarrow> sr_endpoint r = e"
  by (auto simp: searchInEndpoint_def split: if_splits prod.splits)

lemma map_filter_endpoints:
  "map sr_endpoint (List.map_filter (\<lambda>e. searchInEndpoint options e query) xs)
   = filter (\<lambda>e. searchInEndpoint options e query \<noteq> None) xs"
proof (induction xs)
  case Nil
  then show ?case by (simp add: List.map_filter_simps)
next
  case (Cons x xs)
  then show ?case
    by (cases "searchInEndpoint options x query")
       (auto simp: List.map_filter_simps dest: searchInEndpoint_endpoint)
qed

lemma subseq_unscored:
  "subseq (map sr_endpoint (filter P (map (\<lambda>e. \<lparr>sr_endpoint = e, sr_score = 1,
      sr_matchedFields = [], sr_highlights = []\<rparr>) xs))) xs"
proof -
  have "map sr_endpoint (filter P (map (\<lambda>e. \<lparr>sr_endpoint = e, sr_score = 1,
      sr_matchedFields = [], sr_highlights = []\<rparr>) xs))
    = filter (\<lambda>e. P \<lparr>sr_endpoint = e, sr_score = 1, sr_matchedFields = [],
        sr_highlights = []\<rparr>) xs"
    by (induction xs) auto
  then show ?thesis by simp
qed

lemma sorted_unscored:
  "sorted_wrt (\<lambda>a b. sr_score b \<le> sr_score a)
     (map (\<lambda>e. \<lparr>sr_endpoint = e, sr_score = 1, sr_matchedFields = [], sr_highlights = []\<rparr>) xs)"
  by (induction xs) auto

text \<open>
  C6. The results are in descending order of score, and the results of any one score
  stand in the order in which their endpoints stand in the input list: listed in result
  order, they form a subsequence of the input.
\<close>

theorem filteredResults_sorted_stable:
  "sorted_wrt (\<lambda>a b. sr_score b \<le> sr_score a) (filteredResults options filters endpoints)
   \<and> subseq (map sr_endpoint
               (filter (\<lambda>r. sr_score r = s) (filteredResults options filters endpoints)))
        endpoints"
proof -
  let ?results = "applyFilters filters endpoints"
  let ?unscored = "map (\<lambda>e. \<lparr>sr_endpoint = e, sr_score = 1, sr_matchedFields = [],
      sr_highlights = []\<rparr>) ?results"
  have plain: "sorted_wrt (\<lambda>a b. sr_score b \<le> sr_score a) ?unscored
      \<and> subseq (map sr_endpoint (filter (\<lambda>r. sr_score r = s) ?unscored)) endpoints"
    using sorted_unscored subseq_order.trans [OF subseq_unscored subseq_applyFilters]
    by simp
  have searched: "sorted_wrt (\<lambda>a b. sr_score b \<le> sr_score a)
        (sortBy byRelevance (List.map_filter (\<lambda>e. searchInEndpoint options e query) ?results))
      \<and> subseq (map sr_endpoint (filter (\<lambda>r. sr_score r = s)
          (sortBy byRelevance (List.map_filter (\<lambda>e. searchInEndpoint options e query) ?results))))
        endpoints" for query
  proof -
    let ?found = "List.map_filter (\<lambda>e. searchInEndpoint options e query) ?results"
    have "subseq (map sr_endpoint (filter (\<lambda>r. sr_score r = s) ?found)) (map sr_endpoint ?found)"
      by (simp add: subseq_map)
    also have "map sr_endpoint ?found
        = filter (\<lambda>e. searchInEndpoint options e query \<noteq> None) ?results"
      by (rule map_filter_endpoints)
    also have "subseq \<dots> ?results" by simp
    also have "subseq ?results endpoints" by (rule subseq_applyFilters)
    finally show ?thesis by (simp add: sorted_sortBy filter_sortBy)
  qed
  show ?thesis
  proof (cases "sf_query filters")
    case None
    with plain show ?thesis by (simp add: filteredResults_def Let_def)
  next
    case (Some query)
    with plain searched [of query] show ?thesis
      by (simp add: filteredResults_def Let_def)
  qed
qed

section \<open>Properties of the parser entry point\<close>

text \<open>
  C7. When the text is neither valid JSON nor valid YAML, parsing fails with an error
  whose message carries the message of the JSON parser and the message of the YAML
  parser. The error is told from an error of the reference resolver by its message:
  both are plain \<open>Error\<close> objects.
\<close>

theorem parseSpecString_reports_both_messages:
  assumes "jsonParse specString = Inl jsonMessage"
    and "yamlLoad specString = Inl yamlMessage"
  shows "\<exists>message. parseSpecString jsonParse yamlLoad specString = Inl (Error message)
           \<and> parseOpenApi jsonParse yamlLoad inh depth (SpecText specString)
               = Inl (Threw (Error message))
           \<and> message = ''Failed to parse OpenAPI specification. Invalid JSON: '' @ jsonMessage
                         @ ''. Invalid YAML: '' @ yamlMessage
           \<and> sublist jsonMessage message \<and> sublist yamlMessage message
           \<and> (\<forall>ref. Error message \<noteq> unresolved ref)"
proof -
  let ?message = "''Failed to parse OpenAPI specification. Invalid JSON: '' @ jsonMessage
                  @ ''. Invalid YAML: '' @ yamlMessage"
  have run: "parseSpecString jsonParse yamlLoad specString = Inl (Error ?message)"
    using assms by (simp add: parseSpecString_def yamlObject_def)
  have json: "sublist jsonMessage ?message"
    unfolding sublist_def by blast
  have "?message = (''Failed to parse OpenAPI specification. Invalid JSON: '' @ jsonMessage
                    @ ''. Invalid YAML: '') @ yamlMessage @ []"
    by simp
  then have yaml: "sublist yamlMessage ?message"
    unfolding sublist_def by blast
  have other: "\<forall>ref. Error ?message \<noteq> unresolved ref"
    by (simp add: unresolved_def)
  have whole: "parseOpenApi jsonParse yamlLoad inh depth (SpecText specString)
      = Inl (Threw (Error ?message))"
    using run by (simp add: parseOpenApi_def bind_def)
  from run whole json yaml other show ?thesis by blast
qed

theorem parseSpecString_reports_both_messages_witness:
  "parseSpecString (\<lambda>s. Inl ''Unexpected token i in JSON at position 0'')
     (\<lambda>s. Inl ''unexpected end of the stream within a flow collection'')
     ''invalid content {[}''
   = Inl (Error (''Failed to parse OpenAPI specification. ''
                 @ ''Invalid JSON: Unexpected token i in JSON at position 0. ''
                 @ ''Invalid YAML: unexpected end of the stream within a flow collection''))"
proof -
  let ?json = "(\<lambda>s. Inl ''Unexpected token i in JSON at position 0'') :: jsonParser"
  let ?yaml = "(\<lambda>s. Inl ''unexpected end of the stream within a flow collection'') :: yamlLoader"
  have a: "?json ''invalid content {[}'' = Inl ''Unexpected token i in JSON at position 0''"
    by simp
  have b: "?yaml ''invalid content {[}''
           = Inl ''unexpected end of the stream within a flow collection''"
    by simp
  from parseSpecString_reports_both_messages [of ?json _ _ ?yaml, OF a b]
  show ?thesis by auto
qed

section \<open>Properties of the loader\<close>

lemma loadSpec_frame:
  "\<exists>events. fst (loadSpec hook config w) = [SetLoading True, SetError None] @ events @ [SetLoading False]"
proof -
  obtain result w' events where t: "tryLoad hook config w = (result, w', events)"
    by (cases "tryLoad hook config w") auto
  show ?thesis
  proof (cases result)
    case (Inl errorMessage)
    with t have "fst (loadSpec hook config w) = [SetLoading True, SetError None]
        @ (events @ [SetError (Some errorMessage), SetSpec None]) @ [SetLoading False]"
      by (simp add: loadSpec_def)
    then show ?thesis by blast
  next
    case (Inr parsedSpec)
    with t have "fst (loadSpec hook config w) = [SetLoading True, SetError None]
        @ (events @ [SetSpec (Some parsedSpec)]) @ [SetLoading False]"
      by (simp add: loadSpec_def)
    then show ?thesis by blast
  qed
qed

text \<open>
  C4, as the code has it. Every call sets the loading flag and clears the error first,
  and clears the loading flag last. A URL that is supplied is loaded whether or not an
  inline specification is supplied with it: the inline specification is ignored. Only
  when neither is supplied is no load attempted, and the error is recorded.
\<close>

theorem loadSpec_cases:
  "(\<exists>events. fst (loadSpec hook config w)
       = [SetLoading True, SetError None] @ events @ [SetLoading False])
   \<and> (suppliedUrl config \<noteq> None \<longrightarrow>
        loadSpec hook config w = loadSpec hook (config\<lparr>cfg_spec := None\<rparr>) w
        \<and> SetCurrentUrl (suppliedUrl config) \<in> set (fst (loadSpec hook config w)))
   \<and> (suppliedUrl config = None \<and> suppliedSpec config \<noteq> None \<longrightarrow>
        snd (loadSpec hook config w) = w
        \<and> filter isLoadAttempt (fst (loadSpec hook config w)) = [Parse])
   \<and> (suppliedUrl config = None \<and> suppliedSpec config = None \<longrightarrow>
        loadSpec hook config w
          = ([SetLoading True, SetError None,
              SetError (Some ''Either url or spec must be provided''), SetSpec None,
              SetLoading False], w))"
proof -
  have url: "loadSpec hook config w = loadSpec hook (config\<lparr>cfg_spec := None\<rparr>) w
      \<and> SetCurrentUrl (suppliedUrl config) \<in> set (fst (loadSpec hook config w))"
    if "suppliedUrl config \<noteq> None"
  proof -
    from that obtain u where u: "suppliedUrl config = Some u" by auto
    then have u': "suppliedUrl (config\<lparr>cfg_spec := None\<rparr>) = Some u"
      by (simp add: suppliedUrl_def)
    have same: "loadFromUrl hook u (config\<lparr>cfg_spec := None\<rparr>) w = loadFromUrl hook u config w"
      by (simp add: loadFromUrl_def Let_def cong: option.case_cong if_cong)
    from u u' same have eq: "tryLoad hook (config\<lparr>cfg_spec := None\<rparr>) w = tryLoad hook config w"
      by (simp add: tryLoad_def)
    obtain result w' events where l: "loadFromUrl hook u config w = (result, w', events)"
      by (cases "loadFromUrl hook u config w") auto
    with u have "SetCurrentUrl (Some u) \<in> set (fst (loadSpec hook config w))"
      by (cases result) (simp_all add: loadSpec_def tryLoad_def)
    with eq u show ?thesis by (simp add: loadSpec_def)
  qed
  have inline: "snd (loadSpec hook config w) = w
      \<and> filter isLoadAttempt (fst (loadSpec hook config w)) = [Parse]"
    if "suppliedUrl config = None" "suppliedSpec config \<noteq> None"
  proof -
    from that obtain s where "suppliedSpec config = Some s" by auto
    with that(1) show ?thesis
      by (cases "loadFromSpec hook s")
         (simp_all add: loadSpec_def tryLoad_def isLoadAttempt_def)
  qed
  have neither: "loadSpec hook config w
      = ([SetLoading True, SetError None,
          SetError (Some ''Either url or spec must be provided''), SetSpec None,
          SetLoading False], w)"
    if "suppliedUrl config = None" "suppliedSpec config = None"
    using that by (simp add: loadSpec_def tryLoad_def)
  from loadSpec_frame url inline neither show ?thesis by blast
qed

theorem loadSpec_cases_witness:
  "suppliedUrl noConfig = None \<and> suppliedSpec noConfig = None
   \<and> loadSpec quietHook noConfig freshWorld
       = ([SetLoading True, SetError None,
           SetError (Some ''Either url or spec must be provided''), SetSpec None,
           SetLoading False], freshWorld)
   \<and> suppliedUrl (noConfig\<lparr>cfg_url := Some ''https://x/api.json'',
                           cfg_spec := Some (SpecObject (JObj []))\<rparr>) \<noteq> None
   \<and> loadSpec quietHook (noConfig\<lparr>cfg_url := Some ''https://x/api.json'',
                                    cfg_spec := Some (SpecObject (JObj []))\<rparr>) freshWorld
       = loadSpec quietHook (noConfig\<lparr>cfg_url := Some ''https://x/api.json''\<rparr>) freshWorld
   \<and> suppliedSpec (noConfig\<lparr>cfg_spec := Some (SpecObject (JObj []))\<rparr>) \<noteq> None
   \<and> filter isLoadAttempt
        (fst (loadSpec quietHook (noConfig\<lparr>cfg_spec := Some (SpecObject (JObj []))\<rparr>) freshWorld))
       = [Parse]"
proof -
  let ?both = "noConfig\<lparr>cfg_url := Some ''https://x/api.json'',
                        cfg_spec := Some (SpecObject (JObj []))\<rparr>"
  let ?inline = "noConfig\<lparr>cfg_spec := Some (SpecObject (JObj []))\<rparr>"
  have a: "suppliedUrl noConfig = None" "suppliedSpec noConfig = None"
    by (simp_all add: suppliedUrl_def suppliedSpec_def noConfig_def)
  have b: "suppliedUrl ?both \<noteq> None"
    by (simp add: suppliedUrl_def)
  have c: "suppliedUrl ?inline = None" "suppliedSpec ?inline \<noteq> None"
    by (simp_all add: suppliedUrl_def suppliedSpec_def noConfig_def)
  have d: "?both\<lparr>cfg_spec := None\<rparr> = noConfig\<lparr>cfg_url := Some ''https://x/api.json''\<rparr>"
    by (simp add: noConfig_def)
  from loadSpec_cases [of quietHook noConfig freshWorld] a
       loadSpec_cases [of quietHook ?both freshWorld] b d
       loadSpec_cases [of quietHook ?inline freshWorld] c
  show ?thesis by simp
qed

text \<open>
  Both a URL and an inline specification supplied: the URL is fetched and parsed, the
  specification is set and no error is recorded. Neither supplied: the loading flag is
  set before the error is recorded.
\<close>

theorem loadSpec_both_supplied_loads_url:
  "loadSpec quietHook (noConfig\<lparr>cfg_url := Some ''https://x/api.json'',
                                  cfg_spec := Some (SpecObject (JObj []))\<rparr>) freshWorld
     = ([SetLoading True, SetError None, SetCurrentUrl (Some ''https://x/api.json''),
         Fetch ''https://x/api.json'', Parse, SetSpec (Some emptyParsed), SetLoading False],
        \<lparr>w_cache = [(''https://x/api.json'', \<lparr>ce_spec = emptyParsed, ce_timestamp = 0\<rparr>)],
         w_now = 0, w_fetches = 1\<rparr>)
   \<and> ls_error (foldl setState idleState
        (fst (loadSpec quietHook (noConfig\<lparr>cfg_url := Some ''https://x/api.json'',
                                  cfg_spec := Some (SpecObject (JObj []))\<rparr>) freshWorld))) = None
   \<and> map (ls_loading \<circ> foldl setState idleState)
        [take 1 (fst (loadSpec quietHook noConfig freshWorld)),
         fst (loadSpec quietHook noConfig freshWorld)] = [True, False]"
  by (simp add: loadSpec_def tryLoad_def loadFromUrl_def suppliedUrl_def suppliedSpec_def
      noConfig_def quietHook_def freshWorld_def idleState_def hookSetting_def orNumber_def
      upto.simps Let_def)

section \<open>Properties of the code snippet generator\<close>

lemma objSet_keeps: "(k, v) \<in> set obj \<Longrightarrow> k \<noteq> k' \<Longrightarrow> (k, v) \<in> set (objSet k' v' obj)"
  by (induction obj) auto

lemma spread_keeps:
  "(k, v) \<in> set a \<Longrightarrow> k \<notin> fst ` set b \<Longrightarrow> (k, v) \<in> set (spread a b)"
proof (induction b arbitrary: a)
  case Nil
  then show ?case by (simp add: spread_def)
next
  case (Cons entry b)
  obtain k' v' where entry: "entry = (k', v')" by (cases entry)
  with Cons.prems have "k \<noteq> k'" and rest: "k \<notin> fst ` set b" by auto
  with Cons.prems(1) have "(k, v) \<in> set (objSet k' v' a)" by (simp add: objSet_keeps)
  from Cons.IH [OF this rest] entry show ?case by (simp add: spread_def)
qed

lemma sublist_headerLines:
  "h \<in> set hs \<Longrightarrow> sublist (headerLine h) (concat (map headerLine hs))"
proof -
  assume "h \<in> set hs"
  then obtain before after where "hs = before @ h # after"
    by (auto simp: in_set_conv_decomp)
  then have "concat (map headerLine hs)
      = concat (map headerLine before) @ headerLine h @ concat (map headerLine after)"
    by simp
  then show ?thesis unfolding sublist_def by blast
qed

lemma sublist_authorizationHeader:
  "sublist (authorizationHeader token) (headerLine (''Authorization'', ''Bearer '' @ token))"
proof -
  have "headerLine (''Authorization'', ''Bearer '' @ token)
      = continuation @ authorizationHeader token @ []"
    by (simp add: headerLine_def authorizationHeader_def)
  then show ?thesis unfolding sublist_def by blast
qed

text \<open>
  C8, as the code has it. With the language \<open>curl\<close>, authentication included
  (\<open>includeAuth\<close>), bearer authentication with a token that is not empty, no custom
  header named \<open>Authorization\<close>, and a URL that can be built, the generated code
  contains the header option with the token. This holds for the endpoints of every
  method, \<open>GET\<close> among them.
\<close>

theorem curl_bearer_header:
  assumes "cs_language options = ''curl''"
    and "cs_includeAuth options = Some True"
    and "cs_auth options = Some auth"
    and "au_type auth = BearerAuth"
    and "au_bearer auth = Some token"
    and "token \<noteq> []"
    and "''Authorization'' \<notin> fst ` set (customHeaders options)"
    and "buildUrl env endpoint options = Inr url"
  shows "\<exists>result. generateForEndpoint env endpoint options = Inr result
           \<and> sublist (authorizationHeader token) (sn_code result)"
proof -
  let ?headers = "spread (generateAuthHeaders env (cs_auth options)) (customHeaders options)"
  have "(''Authorization'', ''Bearer '' @ token) \<in> set (generateAuthHeaders env (cs_auth options))"
    using assms(3-6) by (simp add: generateAuthHeaders_def)
  then have "(''Authorization'', ''Bearer '' @ token) \<in> set ?headers"
    using assms(7) by (rule spread_keeps)
  then have "sublist (headerLine (''Authorization'', ''Bearer '' @ token))
      (concat (map headerLine ?headers))"
    by (rule sublist_headerLines)
  with sublist_authorizationHeader
  have "sublist (authorizationHeader token) (concat (map headerLine ?headers))"
    by (rule sublist_order.order.trans)
  then obtain before after where
    parts: "concat (map headerLine ?headers) = before @ authorizationHeader token @ after"
    unfolding sublist_def by blast
  define lead where "lead = ''curl -X '' @ toUpperCase (methodKey (ep_method endpoint))"
  define trail where "trail = curlBody env (toUpperCase (methodKey (ep_method endpoint))) options
      @ curlUrl options url"
  from assms(2,8) have
    curl: "generateCurl env endpoint options
           = Inr (lead @ concat (map headerLine ?headers) @ trail)"
    by (simp add: generateCurl_def useAuth_def Let_def lead_def trail_def)
  have "lead @ concat (map headerLine ?headers) @ trail
      = (lead @ before) @ authorizationHeader token @ (after @ trail)"
    using parts by simp
  then have inside: "sublist (authorizationHeader token)
      (lead @ concat (map headerLine ?headers) @ trail)"
    unfolding sublist_def by blast
  have "find (\<lambda>lang. lang_id lang = ''curl'') availableLanguages
      = Some \<lparr>lang_id = ''curl'', lang_name = ''cURL'', lang_extension = ''sh''\<rparr>"
    by (simp add: availableLanguages_def)
  with assms(1) curl inside show ?thesis
    by (simp add: generateForEndpoint_def)
qed

theorem curl_bearer_header_witness:
  "\<exists>result. generateForEndpoint plainEnv listUsers
       (curlOptions\<lparr>cs_includeAuth := Some True, cs_auth := Some (bearerAuth ''test-token'')\<rparr>)
       = Inr result
     \<and> ep_method listUsers = Get
     \<and> sublist (''-H '' @ dquote @ ''Authorization: Bearer test-token'' @ dquote) (sn_code result)"
proof -
  let ?options = "curlOptions\<lparr>cs_includeAuth := Some True,
                                cs_auth := Some (bearerAuth ''test-token'')\<rparr>"
  have a: "cs_language ?options = ''curl''" "cs_includeAuth ?options = Some True"
    "cs_auth ?options = Some (bearerAuth ''test-token'')"
    by (simp_all add: curlOptions_def)
  have b: "au_type (bearerAuth ''test-token'') = BearerAuth"
    "au_bearer (bearerAuth ''test-token'') = Some ''test-token''" "''test-token'' \<noteq> []"
    by (simp_all add: bearerAuth_def)
  have c: "''Authorization'' \<notin> fst ` set (customHeaders ?options)"
    by (simp add: customHeaders_def curlOptions_def)
  have d: "buildUrl plainEnv listUsers ?options = Inr ''https://api.example.com/users''"
    by (simp add: buildUrl_def plainEnv_def plainUrls_def listUsers_def curlOptions_def
        getBaseUrl_def pathChar_def pathPart_def afterPath_def)
  from curl_bearer_header [OF a b c d]
  show ?thesis by (simp add: authorizationHeader_def listUsers_def)
qed

text \<open>
  Bearer authentication configured, but \<open>includeAuth\<close> not set: the generated code
  has no header option at all.
\<close>

theorem curl_bearer_without_includeAuth:
  "ep_method listUsers = Get
   \<and> map_sum id sn_code (generateForEndpoint plainEnv listUsers
        (curlOptions\<lparr>cs_auth := Some (bearerAuth ''test-token'')\<rparr>))
       = Inr (''curl -X GET'' @ continuation @ dquote @ ''https://api.example.com/users'' @ dquote)
   \<and> \<not> sublist (''-H '' @ dquote @ ''Authorization: Bearer test-token'' @ dquote)
         (''curl -X GET'' @ continuation @ dquote @ ''https://api.example.com/users'' @ dquote)"
proof -
  have "ep_method listUsers = Get" by (simp add: listUsers_def)
  moreover have "map_sum id sn_code (generateForEndpoint plainEnv listUsers
        (curlOptions\<lparr>cs_auth := Some (bearerAuth ''test-token'')\<rparr>))
       = Inr (''curl -X GET'' @ continuation @ dquote @ ''https://api.example.com/users'' @ dquote)"
    by code_simp
  moreover have "\<not> sublist (''-H '' @ dquote @ ''Authorization: Bearer test-token'' @ dquote)
         (''curl -X GET'' @ continuation @ dquote @ ''https://api.example.com/users'' @ dquote)"
    by code_simp
  ultimately show ?thesis by simp
qed

section \<open>Properties of the URL builders\<close>














end
